theory Spec2Isabelle
  imports Main "HOL-Library.Sublist"
begin

section \<open>Python strings and the library functions the pipeline calls\<close>

text \<open>
  A Python \<open>str\<close> is a sequence of Unicode code points; \<open>ord\<close> reads one. The model
  keeps the code points as natural numbers, so \<open>len\<close> is \<open>length\<close>. A \<open>bytes\<close>
  value is a list of 8-bit characters. \<open>ustr\<close> writes an ASCII literal as a \<open>str\<close>
  (it is also what \<open>bytes.decode("latin-1")\<close> computes).
\<close>

type_synonym codepoint = nat
type_synonym pystr = "codepoint list"
type_synonym bytes = "char list"

definition ustr :: "char list \<Rightarrow> pystr" where
  "ustr s = map of_char s"

text \<open>
  The parts of the Python runtime that consult the Unicode database or a codec are
  parameters: \<open>unicode_lower\<close> is \<open>str.lower\<close> on a string that holds a non-ASCII code
  point, \<open>unicode_decimal\<close> tells whether a non-ASCII code point is a decimal digit
  (\<open>\d\<close> of \<open>re\<close> on a \<open>str\<close> pattern), \<open>utf8_strict\<close> is \<open>bytes.decode("utf-8")\<close>
  (\<open>None\<close> for UnicodeDecodeError) and \<open>utf8_ignore\<close> is
  \<open>bytes.decode("utf-8", errors="ignore")\<close>.
\<close>

record runtime =
  unicode_lower :: "pystr \<Rightarrow> pystr"
  unicode_decimal :: "codepoint \<Rightarrow> bool"
  utf8_strict :: "bytes \<Rightarrow> pystr option"
  utf8_ignore :: "bytes \<Rightarrow> pystr"

definition is_ascii :: "pystr \<Rightarrow> bool" where
  "is_ascii s = list_all (\<lambda>c. c < 128) s"

definition ascii_lower :: "codepoint \<Rightarrow> codepoint" where
  "ascii_lower c = (if 65 \<le> c \<and> c \<le> 90 then c + 32 else c)"

text \<open>\<open>str.lower()\<close>: on an ASCII string only the letters A to Z change.\<close>

definition lower :: "runtime \<Rightarrow> pystr \<Rightarrow> pystr" where
  "lower R s = (if is_ascii s then map ascii_lower s else unicode_lower R s)"

text \<open>
  \<open>str.isspace\<close> for one code point, which is also \<open>\s\<close> of \<open>re\<close> on a \<open>str\<close>
  pattern and what \<open>str.strip()\<close> removes.
\<close>

definition isspace :: "codepoint \<Rightarrow> bool" where
  "isspace c = ((9 \<le> c \<and> c \<le> 13) \<or> (28 \<le> c \<and> c \<le> 32) \<or> c = 133 \<or> c = 160
      \<or> c = 5760 \<or> (8192 \<le> c \<and> c \<le> 8202) \<or> c = 8232 \<or> c = 8233 \<or> c = 8239
      \<or> c = 8287 \<or> c = 12288)"

definition isdecimal :: "runtime \<Rightarrow> codepoint \<Rightarrow> bool" where
  "isdecimal R c = (if c < 128 then 48 \<le> c \<and> c \<le> 57 else unicode_decimal R c)"

definition strip :: "pystr \<Rightarrow> pystr" where
  "strip s = rev (dropWhile isspace (rev (dropWhile isspace s)))"

text \<open>
  \<open>str.splitlines()\<close>: a line ends at LF, VT, FF, FS, GS, RS, NEL, LS, PS, at CR, and
  at CR LF taken as one boundary. The boundaries are not kept, and a boundary at the
  very end of the string opens no further line.
\<close>

definition is_linebreak :: "codepoint \<Rightarrow> bool" where
  "is_linebreak c = (c = 10 \<or> c = 11 \<or> c = 12 \<or> c = 13 \<or> c = 28 \<or> c = 29 \<or> c = 30
      \<or> c = 133 \<or> c = 8232 \<or> c = 8233)"

fun splitlines_from :: "pystr \<Rightarrow> pystr \<Rightarrow> pystr list" where
  "splitlines_from cur [] = (if cur = [] then [] else [cur])"
| "splitlines_from cur (c # cs) =
     (if is_linebreak c then
        (case cs of
           [] \<Rightarrow> [cur]
         | d # ds \<Rightarrow>
             if c = 13 \<and> d = 10 then cur # splitlines_from [] ds
             else cur # splitlines_from [] (d # ds))
      else splitlines_from (cur @ [c]) cs)"

definition splitlines :: "pystr \<Rightarrow> pystr list" where
  "splitlines s = splitlines_from [] s"

text \<open>\<open>"\n".join(lines)\<close>.\<close>

fun join_nl :: "pystr list \<Rightarrow> pystr" where
  "join_nl [] = []"
| "join_nl [l] = l"
| "join_nl (l # m # ls) = l @ 10 # join_nl (m # ls)"

text \<open>\<open>str.startswith\<close> and the substring test \<open>p in s\<close>.\<close>

fun startswith :: "pystr \<Rightarrow> pystr \<Rightarrow> bool" where
  "startswith s [] = True"
| "startswith [] (p # ps) = False"
| "startswith (c # cs) (p # ps) = (c = p \<and> startswith cs ps)"

fun contains :: "pystr \<Rightarrow> pystr \<Rightarrow> bool" where
  "contains [] p = (p = [])"
| "contains (c # cs) p = (startswith (c # cs) p \<or> contains cs p)"

text \<open>
  The fragment of \<open>re\<close> that the pattern \<open>^\d+\s+\d+\s+obj$\<close> needs: a character
  class repeated one or more times, a literal character, and the end anchor, which
  without the MULTILINE flag matches at the end of the string and before a newline
  that ends it. \<open>re_match\<close> tries every way to split the repetitions, as the
  backtracking matcher does, and tells whether \<open>re.match\<close> finds a match.
\<close>

datatype atom = Plus "codepoint \<Rightarrow> bool" | Lit codepoint

fun re_match :: "atom list \<Rightarrow> pystr \<Rightarrow> bool" where
  "re_match [] s = (s = [] \<or> s = [10])"
| "re_match (Lit x # as) [] = False"
| "re_match (Lit x # as) (c # cs) = (c = x \<and> re_match as cs)"
| "re_match (Plus p # as) [] = False"
| "re_match (Plus p # as) (c # cs) =
     (p c \<and> (re_match (Plus p # as) cs \<or> re_match as cs))"

definition obj_pattern :: "runtime \<Rightarrow> atom list" where
  "obj_pattern R =
     [Plus (isdecimal R), Plus isspace, Plus (isdecimal R), Plus isspace,
      Lit 111, Lit 98, Lit 106]"

section \<open>The sanitizer\<close>

text \<open>
  The loop of \<open>_clean_extracted_text\<close> over the lines, with \<open>cleaned_lines\<close> as the
  accumulator; each \<open>continue\<close> is a branch that goes on with the rest.
\<close>

fun clean_loop :: "runtime \<Rightarrow> pystr list \<Rightarrow> pystr list \<Rightarrow> pystr list" where
  "clean_loop R cleaned_lines [] = cleaned_lines"
| "clean_loop R cleaned_lines (line # lines) =
     (let stripped = strip line in
      if stripped = [] then clean_loop R (cleaned_lines @ [[]]) lines
      else
        let lower' = lower R stripped in
        if startswith lower' (ustr ''%pdf'') then clean_loop R cleaned_lines lines
        else if startswith lower' (ustr ''%%eof'') then clean_loop R cleaned_lines lines
        else if re_match (obj_pattern R) stripped then clean_loop R cleaned_lines lines
        else if lower' \<in> set [ustr ''endobj'', ustr ''stream'', ustr ''endstream'']
          then clean_loop R cleaned_lines lines
        else clean_loop R (cleaned_lines @ [stripped]) lines)"

definition printable :: "codepoint \<Rightarrow> bool" where
  "printable ch = (ch \<in> set [10, 9] \<or> (32 \<le> ch \<and> ch \<le> 126) \<or> ch \<ge> 160)"

definition clean_extracted_text :: "runtime \<Rightarrow> pystr \<Rightarrow> pystr" where
  "clean_extracted_text R raw =
     (let lines = splitlines raw;
          cleaned_lines = clean_loop R [] lines;
          cleaned = join_nl cleaned_lines
      in filter printable cleaned)"

section \<open>The summarizer\<close>

definition generic_failure_summary :: pystr where
  "generic_failure_summary =
     ustr ''1. The document text could not be read in a clear way.'' @ [10] @
     ustr ''2. No reliable topics, facts, or dates can be identified from the available data.'' @ [10] @
     ustr ''3. Consider uploading a text-based or searchable PDF version of the file.'' @ [10] @
     ustr ''4. If the file is scanned, try running OCR locally and uploading the extracted text.''"

definition prompt_system :: pystr where
  "prompt_system =
     ustr ''You write natural, human-sounding summaries of documents.'' @ [10] @
     ustr ''Rules:'' @ [10] @
     ustr ''- Do not apologize.'' @ [10] @
     ustr ''- Do not mention binary data, encoding, PDF structure, or raw bytes.'' @ [10] @
     ustr ''- Do not say the document is corrupted or unreadable.'' @ [10] @
     ustr ''- Do not use markdown, bullet symbols, or asterisks (*, -, '' @ [8226] @
     ustr '', etc.).'' @ [10] @
     ustr ''- Write plain text only, with numbered points and short paragraphs.'' @ [10] @
     ustr ''If you truly cannot see any meaningful text at all, keep the answer very short.''"

definition prompt_header :: pystr where
  "prompt_header =
     ustr ''Summarize the following document clearly and concisely.'' @ [10] @
     ustr ''Include:'' @ [10] @
     ustr ''1. Main topics and key points'' @ [10] @
     ustr ''2. Important facts, figures, and conclusions'' @ [10] @
     ustr ''3. Actionable insights or recommendations'' @ [10] @
     ustr ''4. Any critical deadlines or dates mentioned'' @ [10, 10] @
     ustr ''Document content:'' @ [10]"

definition prompt_user :: "pystr \<Rightarrow> pystr" where
  "prompt_user text_content = prompt_header @ text_content @ [10]"

text \<open>
  The request body sent to the generation service. The sampling parameters
  (temperature 0.1, top_p 0.9) are constants of the source that no claim reads; they
  are floating-point numbers and are left out of the record.
\<close>

record request =
  system :: pystr
  user :: pystr
  max_tokens :: nat

text \<open>
  The steps of \<open>generate_summary\<close> before the call: the cut at \<open>max_length\<close>, then
  the second pass of the sanitizer.
\<close>

definition max_length :: nat where
  "max_length = 10000"

definition truncate_text :: "pystr \<Rightarrow> pystr" where
  "truncate_text text_content =
     (if length text_content > max_length then take max_length text_content @ ustr ''...''
      else text_content)"

definition build_request :: "runtime \<Rightarrow> pystr \<Rightarrow> request" where
  "build_request R text_content =
     (let text_content = truncate_text text_content;
          text_content = clean_extracted_text R text_content
      in \<lparr> system = prompt_system, user = prompt_user text_content, max_tokens = 800 \<rparr>)"

text \<open>
  The steps after the call. \<open>summary_text.replace(ch, "")\<close> with a one-character
  \<open>ch\<close> deletes every occurrence of it; the loop runs over the five characters
  asterisk, U+2022, U+25CF, hyphen-minus and U+25AA in that order.
\<close>

definition replace_with_empty :: "pystr \<Rightarrow> codepoint \<Rightarrow> pystr" where
  "replace_with_empty s ch = filter (\<lambda>c. c \<noteq> ch) s"

definition formatting_characters :: "codepoint list" where
  "formatting_characters = [42, 8226, 9679, 45, 9642]"

definition strip_formatting :: "pystr \<Rightarrow> pystr" where
  "strip_formatting summary_text = strip (foldl replace_with_empty summary_text formatting_characters)"

definition bad_phrases :: "pystr list" where
  "bad_phrases =
     [ustr ''appears to be corrupted'',
      ustr ''contains unreadable data'',
      ustr ''not in a recognizable text format'',
      ustr ''not presented in a coherent, textual format'',
      ustr ''raw, binary data'']"

definition postprocess :: "runtime \<Rightarrow> pystr \<Rightarrow> pystr" where
  "postprocess R content =
     (let summary_text = strip_formatting content;
          lower' = lower R summary_text
      in if list_ex (contains lower') bad_phrases then generic_failure_summary
         else summary_text)"

section \<open>Collaborators, exceptions and effects\<close>

text \<open>
  An exception is its class and what \<open>str(e)\<close> gives. \<open>ValueError\<close> is what the
  handler raises for a document without text; \<open>UnsupportedDocumentException\<close> is the
  detection service's "format unsupported"; \<open>ServiceError\<close> stands for every other
  exception of a collaborator, and \<open>KeyError\<close> for a trigger event without the
  expected fields.
\<close>

datatype exn_class = ValueError | KeyError | UnsupportedDocumentException | ServiceError

datatype exn = Exn (exn_class: exn_class) (exn_str: pystr)

text \<open>The status strings passed to \<open>store_metadata\<close> and \<open>send_notification\<close>.\<close>

datatype status = PROCESSING | COMPLETED | FAILED | SUCCESS

text \<open>
  The item written to the record table: the five base attributes, then the
  \<open>additional_data\<close> dictionary merged in by \<open>item.update\<close> (its keys are disjoint
  from the base ones).
\<close>

datatype additional_data =
    Completion (summary_key: pystr) (text_length: nat) (summary_length: nat)
      (processing_duration: pystr)
  | Failure (error_message: pystr)

record item =
  document_id :: pystr
  processing_timestamp :: pystr
  document_key :: pystr
  processing_status :: status
  ttl :: int
  additional :: "additional_data option"

record message =
  msg_document_id :: pystr
  msg_document_key :: pystr
  msg_status :: status
  msg_timestamp :: pystr
  msg_summary_key :: "pystr option"
  msg_error_message :: "pystr option"

record artifact =
  art_key :: pystr
  art_body :: pystr
  original_document :: pystr
  art_text_length :: nat
  art_summary_length :: nat
  art_timestamp :: pystr

record block =
  BlockType :: pystr
  Text :: pystr

text \<open>
  The trigger event after the handler's two reads: the bucket name and the
  URL-decoded key, or the exception that a read of a missing field raises.
\<close>

datatype event = S3Event pystr pystr | Malformed exn

text \<open>
  \<open>datetime.now(timezone.utc)\<close> is read at most once at each of these places in one
  invocation, so the clock is a function of the place: its ISO string and its whole
  epoch seconds. \<open>elapsed_seconds_str\<close> is the string of the elapsed time, a
  floating-point number that the model does not compute. \<open>invoke_model\<close> is the call
  of the generation service together with the reading of
  \<open>choices[0].message.content\<close> from its response: the content, or the exception
  that either step raises. A collaborator that writes answers \<open>None\<close> when it
  accepts the write and the exception otherwise.
\<close>

datatype clock_site = AtStart | AtRecord status | AtArtifact | AtNotification status

record env =
  rt :: runtime
  utcnow_isoformat :: "clock_site \<Rightarrow> pystr"
  utcnow_epoch :: "clock_site \<Rightarrow> int"
  elapsed_seconds_str :: pystr
  uuid4 :: pystr
  get_object :: "pystr \<Rightarrow> pystr \<Rightarrow> exn + bytes"
  detect_document_text :: "pystr \<Rightarrow> pystr \<Rightarrow> exn + block list"
  invoke_model :: "request \<Rightarrow> exn + pystr"
  put_object :: "artifact \<Rightarrow> exn option"
  put_item :: "item \<Rightarrow> exn option"
  publish :: "message \<Rightarrow> exn option"

text \<open>
  What one invocation leaves behind. The table has the key schema that the stack
  declares for it (partition key \<open>document_id\<close>, sort key \<open>processing_timestamp\<close>):
  an accepted \<open>put_item\<close> stores the item under that pair and replaces the item that
  was there. \<open>put_item_calls\<close> lists every item handed to \<open>put_item\<close>, accepted or
  not, and \<open>invocations\<close> every request sent to the generation service.
\<close>

record world =
  table :: "(pystr \<times> pystr) \<rightharpoonup> item"
  put_item_calls :: "item list"
  objects :: "pystr \<rightharpoonup> artifact"
  published :: "message list"
  invocations :: "request list"

section \<open>The extractor\<close>

text \<open>\<open>os.path.splitext(p)[1]\<close>: from the last dot of the last path component, unless only dots precede it there.\<close>

definition splitext_ext :: "pystr \<Rightarrow> pystr" where
  "splitext_ext p =
     (let base = rev (takeWhile (\<lambda>c. c \<noteq> 47) (rev p));
          ext = rev (takeWhile (\<lambda>c. c \<noteq> 46) (rev base));
          stem = take (length base - length ext - 1) base
      in if 46 \<in> set base \<and> list_ex (\<lambda>c. c \<noteq> 46) stem then 46 # ext else [])"

definition plain_extensions :: "pystr list" where
  "plain_extensions = [ustr ''.txt'', ustr ''.md'', ustr ''.csv'', ustr ''.log'']"

definition extract_body :: "env \<Rightarrow> pystr \<Rightarrow> pystr \<Rightarrow> exn + pystr" where
  "extract_body E bucket key =
     (let extension = splitext_ext (lower (rt E) key) in
      if extension \<in> set plain_extensions then
        (case get_object E bucket key of
           Inl e \<Rightarrow> Inl e
         | Inr data \<Rightarrow>
             (case utf8_strict (rt E) data of
                Some t \<Rightarrow> Inr t
              | None \<Rightarrow> Inr (map of_char data)))
      else
        (case detect_document_text E bucket key of
           Inl e \<Rightarrow> Inl e
         | Inr blocks \<Rightarrow>
             Inr (join_nl (map Text (filter (\<lambda>b. BlockType b = ustr ''LINE'') blocks)))))"

definition extract_text :: "env \<Rightarrow> pystr \<Rightarrow> pystr \<Rightarrow> exn + pystr" where
  "extract_text E bucket key =
     (case extract_body E bucket key of
        Inr t \<Rightarrow> Inr t
      | Inl e \<Rightarrow>
          if exn_class e = UnsupportedDocumentException then
            (case get_object E bucket key of
               Inl e' \<Rightarrow> Inl e'
             | Inr data \<Rightarrow> Inr (clean_extracted_text (rt E) (utf8_ignore (rt E) data)))
          else Inl e)"

section \<open>Summary generation, persistence and notification\<close>

definition generate_summary :: "env \<Rightarrow> pystr \<Rightarrow> world \<Rightarrow> (exn + pystr) \<times> world" where
  "generate_summary E text_content w =
     (let body = build_request (rt E) text_content;
          w' = w\<lparr>invocations := invocations w @ [body]\<rparr>
      in case invoke_model E body of
           Inl e \<Rightarrow> (Inl e, w')
         | Inr content \<Rightarrow> (Inr (postprocess (rt E) content), w'))"

text \<open>
  \<open>summary_artifact\<close> is the object that \<open>store_summary\<close> hands to \<open>put_object\<close>: the
  key, the body and the metadata dictionary.
\<close>

definition summary_artifact :: "env \<Rightarrow> pystr \<Rightarrow> pystr \<Rightarrow> pystr \<Rightarrow> artifact" where
  "summary_artifact E original_key summary full_text =
     \<lparr> art_key = ustr ''summaries/'' @ original_key @ ustr ''.summary.txt'',
       art_body = summary,
       original_document = original_key,
       art_text_length = length full_text,
       art_summary_length = length summary,
       art_timestamp = utcnow_isoformat E AtArtifact \<rparr>"

definition store_summary ::
  "env \<Rightarrow> pystr \<Rightarrow> pystr \<Rightarrow> pystr \<Rightarrow> world \<Rightarrow> (exn + pystr) \<times> world" where
  "store_summary E original_key summary full_text w =
     (let summary_key = ustr ''summaries/'' @ original_key @ ustr ''.summary.txt'';
          obj = summary_artifact E original_key summary full_text
      in case put_object E obj of
           Some e \<Rightarrow> (Inl e, w)
         | None \<Rightarrow> (Inr summary_key, w\<lparr>objects := (objects w)(summary_key \<mapsto> obj)\<rparr>))"

text \<open>
  \<open>store_metadata\<close> and \<open>send_notification\<close> catch every exception of their call, log
  it and return: they have no error result. \<open>metadata_item\<close> is the dictionary that
  \<open>store_metadata\<close> builds and hands to \<open>put_item\<close>, \<open>notification_message\<close> the one
  that \<open>send_notification\<close> publishes; \<open>truthy\<close> is the test \<open>if summary_key:\<close>, which
  leaves out a value that is \<open>None\<close> or empty.
\<close>

definition metadata_item ::
  "env \<Rightarrow> pystr \<Rightarrow> pystr \<Rightarrow> status \<Rightarrow> pystr \<Rightarrow> additional_data option \<Rightarrow> item" where
  "metadata_item E doc_id doc_key st timestamp additional_data =
     \<lparr> document_id = doc_id, processing_timestamp = timestamp,
       document_key = doc_key, processing_status = st,
       ttl = utcnow_epoch E (AtRecord st) + 30 * 24 * 60 * 60,
       additional = additional_data \<rparr>"

definition store_metadata ::
  "env \<Rightarrow> pystr \<Rightarrow> pystr \<Rightarrow> status \<Rightarrow> pystr \<Rightarrow> additional_data option \<Rightarrow> world \<Rightarrow> world" where
  "store_metadata E doc_id doc_key st timestamp additional_data w =
     (let item = metadata_item E doc_id doc_key st timestamp additional_data;
          w' = w\<lparr>put_item_calls := put_item_calls w @ [item]\<rparr>
      in case put_item E item of
           None \<Rightarrow> w'\<lparr>table := (table w')((doc_id, timestamp) \<mapsto> item)\<rparr>
         | Some e \<Rightarrow> w')"

definition truthy :: "pystr option \<Rightarrow> pystr option" where
  "truthy v = (case v of None \<Rightarrow> None | Some s \<Rightarrow> if s = [] then None else Some s)"

definition notification_message ::
  "env \<Rightarrow> pystr \<Rightarrow> pystr \<Rightarrow> pystr option \<Rightarrow> status \<Rightarrow> pystr option \<Rightarrow> message" where
  "notification_message E doc_id doc_key summary_key' st error_message' =
     \<lparr> msg_document_id = doc_id, msg_document_key = doc_key,
       msg_status = st,
       msg_timestamp = utcnow_isoformat E (AtNotification st),
       msg_summary_key = truthy summary_key',
       msg_error_message = truthy error_message' \<rparr>"

definition send_notification ::
  "env \<Rightarrow> pystr \<Rightarrow> pystr \<Rightarrow> pystr option \<Rightarrow> status \<Rightarrow> pystr option \<Rightarrow> world \<Rightarrow> world" where
  "send_notification E doc_id doc_key summary_key' st error_message' w =
     (let message = notification_message E doc_id doc_key summary_key' st error_message'
      in case publish E message of
           None \<Rightarrow> w\<lparr>published := published w @ [message]\<rparr>
         | Some e \<Rightarrow> w)"

section \<open>The orchestrator\<close>

text \<open>
  The value that the handler returns: the status code and the fields of the JSON body
  (its constant \<open>message\<close> text apart).
\<close>

record response =
  statusCode :: nat
  body_document_id :: pystr
  body_document :: pystr
  body_summary_key :: pystr
  body_summary_length :: nat

text \<open>
  \<open>or_unknown\<close> is \<open>document_id or "UNKNOWN"\<close>, which also replaces an empty
  identifier; \<open>key_or_unknown\<close> is \<open>key if "key" in locals() else "UNKNOWN"\<close>, which
  keeps any key that was assigned.
\<close>

definition or_unknown :: "pystr option \<Rightarrow> pystr" where
  "or_unknown v = (case truthy v of None \<Rightarrow> ustr ''UNKNOWN'' | Some s \<Rightarrow> s)"

definition key_or_unknown :: "pystr option \<Rightarrow> pystr" where
  "key_or_unknown key = (case key of None \<Rightarrow> ustr ''UNKNOWN'' | Some k \<Rightarrow> k)"

text \<open>
  The \<open>except Exception as e\<close> block of \<open>lambda_handler\<close>: the FAILED record, the
  FAILED notification, then \<open>raise\<close>. The inner \<open>try\<close> around the two calls has
  nothing to catch, since neither call raises.
\<close>

definition on_exception ::
  "env \<Rightarrow> pystr option \<Rightarrow> pystr option \<Rightarrow> pystr \<Rightarrow> exn \<Rightarrow> world \<Rightarrow> (exn + response) \<times> world" where
  "on_exception E doc_id key processing_ts e w =
     (let w1 = store_metadata E (or_unknown doc_id) (key_or_unknown key) FAILED processing_ts
                 (Some (Failure (exn_str e))) w;
          w2 = send_notification E (or_unknown doc_id) (key_or_unknown key) None FAILED
                 (Some (exn_str e)) w1
      in (Inl e, w2))"

definition no_text_error :: exn where
  "no_text_error = Exn ValueError (ustr ''No text could be extracted from the document.'')"

definition lambda_handler :: "env \<Rightarrow> event \<Rightarrow> world \<Rightarrow> (exn + response) \<times> world" where
  "lambda_handler E ev w =
     (let processing_ts = utcnow_isoformat E AtStart in
      case ev of
        Malformed e \<Rightarrow> on_exception E None None processing_ts e w
      | S3Event bucket key \<Rightarrow>
          let doc_id = uuid4 E;
              w1 = store_metadata E doc_id key PROCESSING processing_ts None w
          in
          (case extract_text E bucket key of
             Inl e \<Rightarrow> on_exception E (Some doc_id) (Some key) processing_ts e w1
           | Inr text_content \<Rightarrow>
               if strip text_content = [] then
                 on_exception E (Some doc_id) (Some key) processing_ts no_text_error w1
               else
                 (case generate_summary E text_content w1 of
                    (Inl e, w2) \<Rightarrow> on_exception E (Some doc_id) (Some key) processing_ts e w2
                  | (Inr summary, w2) \<Rightarrow>
                      (case store_summary E key summary text_content w2 of
                         (Inl e, w3) \<Rightarrow>
                           on_exception E (Some doc_id) (Some key) processing_ts e w3
                       | (Inr skey, w3) \<Rightarrow>
                           let w4 = store_metadata E doc_id key COMPLETED processing_ts
                                      (Some (Completion skey (length text_content)
                                         (length summary) (elapsed_seconds_str E))) w3;
                               w5 = send_notification E doc_id key (Some skey) SUCCESS None w4
                           in (Inr \<lparr> statusCode = 200, body_document_id = doc_id,
                                     body_document = key, body_summary_key = skey,
                                     body_summary_length = length summary \<rparr>, w5)))))"

text \<open>A runtime for ASCII data, to run the definitions on concrete inputs.\<close>

definition ascii_runtime :: runtime where
  "ascii_runtime = \<lparr> unicode_lower = (\<lambda>s. s), unicode_decimal = (\<lambda>c. False),
     utf8_strict = (\<lambda>b. if list_all (\<lambda>c. (of_char c :: nat) < 128) b then Some (map of_char b) else None),
     utf8_ignore = (\<lambda>b. map of_char (filter (\<lambda>c. (of_char c :: nat) < 128) b)) \<rparr>"

text \<open>
  An environment in which every collaborator answers and accepts every write, and the
  world before the first invocation.
\<close>

definition demo_env :: env where
  "demo_env =
     \<lparr> rt = ascii_runtime,
       utcnow_isoformat = (\<lambda>site. if site = AtStart then ustr ''2024-05-01T10:00:00+00:00''
                                  else ustr ''2024-05-01T10:00:02+00:00''),
       utcnow_epoch = (\<lambda>site. if site = AtStart then 1714557600 else 1714557602),
       elapsed_seconds_str = ustr ''2.0'',
       uuid4 = ustr ''0b9f4c1e'',
       get_object = (\<lambda>bucket key. Inr ''Meeting at 3pm.''),
       detect_document_text = (\<lambda>bucket key. Inr []),
       invoke_model = (\<lambda>body. Inr (ustr ''1. Meeting at 3pm.'')),
       put_object = (\<lambda>obj. None),
       put_item = (\<lambda>item. None),
       publish = (\<lambda>message. None) \<rparr>"

definition empty_world :: world where
  "empty_world =
     \<lparr> table = Map.empty, put_item_calls = [], objects = Map.empty, published = [],
       invocations = [] \<rparr>"

text \<open>
  A variant in which the detection service rejects every document as unsupported and
  the stored object is a small PDF-like file.
\<close>

definition pdf_env :: env where
  "pdf_env = demo_env\<lparr>
     detect_document_text :=
       \<lambda>bucket key. Inl (Exn UnsupportedDocumentException (ustr ''unsupported document'')),
     get_object :=
       \<lambda>bucket key. Inr (''%PDF-1.4'' @ [CHR 0x0A] @ ''1 0 obj'' @ [CHR 0x0A] @
         ''Hello World'' @ [CHR 0x0A] @ ''endobj'' @ [CHR 0x0A] @ ''%%EOF'')\<rparr>"

text \<open>
  Two more variants: one whose stored object holds only whitespace, and one whose record
  table rejects every write.
\<close>

definition blank_env :: env where
  "blank_env = demo_env\<lparr>get_object := \<lambda>bucket key. Inr (''  '' @ [CHR 0x0A] @ '' '')\<rparr>"

definition throttled_env :: env where
  "throttled_env = demo_env\<lparr>put_item :=
     \<lambda>item. Some (Exn ServiceError (ustr ''ProvisionedThroughputExceededException''))\<rparr>"

section \<open>The line rule of the sanitizer, in the words of its description\<close>

text \<open>
  The description of the sanitizer, to be compared with \<open>clean_loop\<close>: each line is
  trimmed; a blank line stays as an empty line, a line that the drop rule matches
  disappears, every other line stays trimmed; the lines are joined with newlines.
\<close>

definition sanitize_line :: "(pystr \<Rightarrow> bool) \<Rightarrow> pystr \<Rightarrow> pystr list" where
  "sanitize_line dropped line =
     (let s = strip line in if s = [] then [[]] else if dropped s then [] else [s])"

definition sanitize_lines :: "(pystr \<Rightarrow> bool) \<Rightarrow> pystr \<Rightarrow> pystr" where
  "sanitize_lines dropped raw = join_nl (concat (map (sanitize_line dropped) (splitlines raw)))"

text \<open>
  The drop rule as the description words it: the line starts, whatever the case, with
  the PDF magic marker or with the end-of-file marker, or it is digits, one space,
  digits, one space and \<open>obj\<close>, or it is exactly one of the three container
  keywords.
\<close>

definition digits_space_digits_space_obj :: "runtime \<Rightarrow> pystr \<Rightarrow> bool" where
  "digits_space_digits_space_obj R s =
     (let d1 = takeWhile (isdecimal R) s;
          r1 = dropWhile (isdecimal R) s;
          d2 = takeWhile (isdecimal R) (drop 1 r1);
          r2 = dropWhile (isdecimal R) (drop 1 r1)
      in d1 \<noteq> [] \<and> take 1 r1 = [32] \<and> d2 \<noteq> [] \<and> r2 = 32 # ustr ''obj'')"

definition described_drop :: "runtime \<Rightarrow> pystr \<Rightarrow> bool" where
  "described_drop R s =
     (startswith (lower R s) (ustr ''%pdf'') \<or> startswith (lower R s) (ustr ''%%eof'')
      \<or> digits_space_digits_space_obj R s
      \<or> s \<in> set [ustr ''endobj'', ustr ''stream'', ustr ''endstream''])"

text \<open>
  The drop rule of the code: the separators of the object line are runs of one or more
  whitespace characters, and the container keywords are compared whatever the case.
\<close>

definition digits_ws_digits_ws_obj :: "runtime \<Rightarrow> pystr \<Rightarrow> bool" where
  "digits_ws_digits_ws_obj R s =
     (\<exists>d1 w1 d2 w2.
        s = d1 @ w1 @ d2 @ w2 @ ustr ''obj''
        \<and> d1 \<noteq> [] \<and> list_all (isdecimal R) d1 \<and> w1 \<noteq> [] \<and> list_all isspace w1
        \<and> d2 \<noteq> [] \<and> list_all (isdecimal R) d2 \<and> w2 \<noteq> [] \<and> list_all isspace w2)"

definition actual_drop :: "runtime \<Rightarrow> pystr \<Rightarrow> bool" where
  "actual_drop R s =
     (startswith (lower R s) (ustr ''%pdf'') \<or> startswith (lower R s) (ustr ''%%eof'')
      \<or> digits_ws_digits_ws_obj R s
      \<or> lower R s \<in> set [ustr ''endobj'', ustr ''stream'', ustr ''endstream''])"

section \<open>Facts about the string functions\<close>

lemma startswith_prefix: "startswith s p = prefix p s"
  by (induction s p rule: startswith.induct) auto

lemma contains_sublist: "contains s p = sublist p s"
  by (induction s) (auto simp: startswith_prefix sublist_Cons_right)

lemma set_strip: "set (strip s) \<subseteq> set s"
  unfolding strip_def by (auto dest!: set_dropWhileD)

lemma strip_edges:
  "strip s = [] \<or> (\<not> isspace (hd (strip s)) \<and> \<not> isspace (last (strip s)))"
proof (cases "strip s = []")
  case True
  then show ?thesis by simp
next
  case False
  define t where "t = dropWhile isspace s"
  define u where "u = dropWhile isspace (rev t)"
  have su: "strip s = rev u" by (simp add: strip_def t_def u_def)
  with False have une: "u \<noteq> []" by simp
  then have hdu: "\<not> isspace (hd u)" unfolding u_def by (rule hd_dropWhile)
  from une have tne: "t \<noteq> []" unfolding u_def by auto
  then have hdt: "\<not> isspace (hd t)" unfolding t_def by (rule hd_dropWhile)
  have "hd t \<in> set (rev t)" using tne by simp
  then have "last u = last (rev t)" unfolding u_def using hdt by (rule dropWhile_last)
  then have lu: "last u = hd t" using tne by (simp add: last_rev)
  have "hd (strip s) = last u" using une by (simp add: su hd_rev)
  moreover have "last (strip s) = hd u" using une by (simp add: su last_rev)
  ultimately show ?thesis using hdu hdt lu by simp
qed

lemma foldl_replace_with_empty:
  "foldl replace_with_empty s cs = filter (\<lambda>c. c \<notin> set cs) s"
  by (induction cs arbitrary: s) (auto simp: replace_with_empty_def intro: filter_cong)

lemma strip_formatting_filter:
  "strip_formatting s = strip (filter (\<lambda>c. c \<notin> set formatting_characters) s)"
  by (simp only: strip_formatting_def foldl_replace_with_empty)

lemma set_strip_formatting:
  "set (strip_formatting s) \<inter> set formatting_characters = {}"
  using set_strip[of "filter (\<lambda>c. c \<notin> set formatting_characters) s"]
  unfolding strip_formatting_filter by auto

lemmas eval_defs =
  ustr_def strip_def isspace_def splitlines_def is_linebreak_def lower_def is_ascii_def
  ascii_lower_def obj_pattern_def isdecimal_def printable_def Let_def

section \<open>The sanitizer's output alphabet\<close>

text \<open>
  Claim C6. For every input string, every character of the sanitizer's output is a
  newline, a tab, a printable ASCII character (code points 32 to 126) or a character
  at or above code point 160; no control character survives.
\<close>

theorem sanitize_output_alphabet:
  "\<forall>c \<in> set (clean_extracted_text R raw).
     c = 10 \<or> c = 9 \<or> (32 \<le> c \<and> c \<le> 126) \<or> 160 \<le> c"
  by (auto simp: clean_extracted_text_def Let_def printable_def)

theorem sanitize_output_alphabet_witness:
  "clean_extracted_text ascii_runtime [0, 72, 27, 105, 233, 127, 10, 7] = [72, 105, 233, 10]
   \<and> list_all (\<lambda>c. c = 10 \<or> c = 9 \<or> (32 \<le> c \<and> c \<le> 126) \<or> 160 \<le> c)
         (clean_extracted_text ascii_runtime [0, 72, 27, 105, 233, 127, 10, 7])"
proof -
  have "clean_extracted_text ascii_runtime [0, 72, 27, 105, 233, 127, 10, 7] = [72, 105, 233, 10]"
    by (simp add: clean_extracted_text_def eval_defs ascii_runtime_def)
  then show ?thesis
    using sanitize_output_alphabet [of ascii_runtime "[0, 72, 27, 105, 233, 127, 10, 7]"]
    by (simp only: list_all_iff simp_thms)
qed

section \<open>The content-policy guard\<close>

text \<open>
  Claim C2. When the generation service answers with \<open>content\<close>, the cleaned output
  is \<open>content\<close> with the five formatting characters deleted and the surrounding
  whitespace stripped. If the lowercased cleaned output contains one of the five banned
  phrases, \<open>generate_summary\<close> returns the fixed four-point text, written out below,
  verbatim; if it contains none, it returns the cleaned output unchanged. Lowercasing
  an ASCII text maps the letters A to Z to a to z and nothing else, so the comparison
  ignores case.
\<close>

theorem banned_phrase_fallback:
  assumes "invoke_model E (build_request (rt E) text_content) = Inr content"
  shows
    "let cleaned = strip (filter (\<lambda>c. c \<notin> {42, 8226, 9679, 45, 9642}) content);
         lowered = lower (rt E) cleaned
     in fst (generate_summary E text_content w) =
          Inr (if \<exists>p \<in> {ustr ''appears to be corrupted'',
                        ustr ''contains unreadable data'',
                        ustr ''not in a recognizable text format'',
                        ustr ''not presented in a coherent, textual format'',
                        ustr ''raw, binary data''}. sublist p lowered
               then ustr ''1. The document text could not be read in a clear way.'' @ [10] @
                    ustr ''2. No reliable topics, facts, or dates can be identified from the available data.'' @ [10] @
                    ustr ''3. Consider uploading a text-based or searchable PDF version of the file.'' @ [10] @
                    ustr ''4. If the file is scanned, try running OCR locally and uploading the extracted text.''
               else cleaned)
        \<and> (list_all (\<lambda>c. c < 128) cleaned \<longrightarrow>
             lowered = map (\<lambda>c. if 65 \<le> c \<and> c \<le> 90 then c + 32 else c) cleaned)"
proof -
  have f: "set formatting_characters = {42, 8226, 9679, 45, 9642}"
    by (simp add: formatting_characters_def)
  have c: "strip_formatting content = strip (filter (\<lambda>c. c \<notin> {42, 8226, 9679, 45, 9642}) content)"
    using strip_formatting_filter [of content] by (simp only: f)
  have b: "set bad_phrases = {ustr ''appears to be corrupted'',
                        ustr ''contains unreadable data'',
                        ustr ''not in a recognizable text format'',
                        ustr ''not presented in a coherent, textual format'',
                        ustr ''raw, binary data''}"
    by (simp add: bad_phrases_def)
  have r: "fst (generate_summary E text_content w) =
      Inr (if \<exists>p \<in> set bad_phrases. sublist p (lower (rt E) (strip_formatting content))
           then generic_failure_summary else strip_formatting content)"
    using assms
    by (simp add: generate_summary_def postprocess_def Let_def list_ex_iff contains_sublist)
  have l: "list_all (\<lambda>c. c < 128) s \<longrightarrow>
      lower (rt E) s = map (\<lambda>c. if 65 \<le> c \<and> c \<le> 90 then c + 32 else c) s" for s
    by (simp add: lower_def is_ascii_def ascii_lower_def)
  show ?thesis
    unfolding Let_def
    using r l [of "strip (filter (\<lambda>c. c \<notin> {42, 8226, 9679, 45, 9642}) content)"]
    by (simp only: c b generic_failure_summary_def simp_thms)
qed


lemma cleaned_corrupted:
  "strip (filter (\<lambda>c. c \<notin> {42, 8226, 9679, 45, 9642}) (ustr ''- The file APPEARS to be corrupted. ''))
     = ustr ''The file APPEARS to be corrupted.''"
  by (simp add: eval_defs)

lemma lower_corrupted:
  "lower ascii_runtime (ustr ''The file APPEARS to be corrupted.'')
     = ustr ''the file appears to be corrupted.''"
  by (simp add: eval_defs)

lemma contains_corrupted:
  "contains (ustr ''the file appears to be corrupted.'') (ustr ''appears to be corrupted'')"
  by (simp add: ustr_def)

theorem banned_phrase_fallback_witness:
  "invoke_model (demo_env\<lparr>invoke_model := \<lambda>body. Inr (ustr ''- The file APPEARS to be corrupted. '')\<rparr>)
     (build_request (rt (demo_env\<lparr>invoke_model := \<lambda>body. Inr (ustr ''- The file APPEARS to be corrupted. '')\<rparr>))
        (ustr ''Meeting at 3pm.'')) = Inr (ustr ''- The file APPEARS to be corrupted. '')
   \<and> fst (generate_summary
        (demo_env\<lparr>invoke_model := \<lambda>body. Inr (ustr ''- The file APPEARS to be corrupted. '')\<rparr>)
        (ustr ''Meeting at 3pm.'') empty_world)
     = Inr (ustr ''1. The document text could not be read in a clear way.'' @ [10] @
            ustr ''2. No reliable topics, facts, or dates can be identified from the available data.'' @ [10] @
            ustr ''3. Consider uploading a text-based or searchable PDF version of the file.'' @ [10] @
            ustr ''4. If the file is scanned, try running OCR locally and uploading the extracted text.'')
   \<and> length (ustr ''1. The document text could not be read in a clear way.'' @ [10] @
            ustr ''2. No reliable topics, facts, or dates can be identified from the available data.'' @ [10] @
            ustr ''3. Consider uploading a text-based or searchable PDF version of the file.'' @ [10] @
            ustr ''4. If the file is scanned, try running OCR locally and uploading the extracted text.'')
     = 295"
proof -
  let ?E = "demo_env\<lparr>invoke_model := \<lambda>body. Inr (ustr ''- The file APPEARS to be corrupted. '')\<rparr>"
  have h: "invoke_model ?E (build_request (rt ?E) (ustr ''Meeting at 3pm.''))
             = Inr (ustr ''- The file APPEARS to be corrupted. '')"
    by simp
  have rt: "rt ?E = ascii_runtime" by (simp add: demo_env_def)
  have "sublist (ustr ''appears to be corrupted'') (ustr ''the file appears to be corrupted.'')"
    using contains_corrupted by (simp only: contains_sublist)
  then have ex: "\<exists>p \<in> {ustr ''appears to be corrupted'',
                        ustr ''contains unreadable data'',
                        ustr ''not in a recognizable text format'',
                        ustr ''not presented in a coherent, textual format'',
                        ustr ''raw, binary data''}. sublist p (ustr ''the file appears to be corrupted.'')"
    by blast
  have n: "length (ustr ''1. The document text could not be read in a clear way.'' @ [10] @
            ustr ''2. No reliable topics, facts, or dates can be identified from the available data.'' @ [10] @
            ustr ''3. Consider uploading a text-based or searchable PDF version of the file.'' @ [10] @
            ustr ''4. If the file is scanned, try running OCR locally and uploading the extracted text.'')
     = 295"
    by (simp add: ustr_def)
  have "fst (generate_summary ?E (ustr ''Meeting at 3pm.'') empty_world)
     = Inr (ustr ''1. The document text could not be read in a clear way.'' @ [10] @
            ustr ''2. No reliable topics, facts, or dates can be identified from the available data.'' @ [10] @
            ustr ''3. Consider uploading a text-based or searchable PDF version of the file.'' @ [10] @
            ustr ''4. If the file is scanned, try running OCR locally and uploading the extracted text.'')"
    using banned_phrase_fallback [OF h, of empty_world] ex
    by (simp only: Let_def rt cleaned_corrupted lower_corrupted if_True simp_thms)
  with h n show ?thesis by (intro conjI)
qed

section \<open>Formatting characters in the summary\<close>

text \<open>
  Claim C10. When no banned phrase matches the cleaned response, the returned summary
  is the response with every asterisk, U+2022, U+25CF, hyphen-minus and U+25AA deleted
  and the surrounding whitespace stripped: none of the five characters occurs in it
  (so every hyphen of the response is gone, wherever it stood), and it neither starts
  nor ends with whitespace.
\<close>

theorem summary_without_formatting:
  assumes "invoke_model E (build_request (rt E) text_content) = Inr content"
    and "\<not> (\<exists>p \<in> set bad_phrases. sublist p (lower (rt E) (strip_formatting content)))"
  shows "\<exists>s. fst (generate_summary E text_content w) = Inr s
           \<and> s = strip (filter (\<lambda>c. c \<notin> {42, 8226, 9679, 45, 9642}) content)
           \<and> set s \<inter> {42, 8226, 9679, 45, 9642} = {}
           \<and> (s = [] \<or> (\<not> isspace (hd s) \<and> \<not> isspace (last s)))"
proof -
  have r: "fst (generate_summary E text_content w) = Inr (strip_formatting content)"
    using assms
    by (simp add: generate_summary_def postprocess_def Let_def list_ex_iff contains_sublist)
  have f: "set formatting_characters = {42, 8226, 9679, 45, 9642}"
    by (simp add: formatting_characters_def)
  have a: "strip_formatting content = strip (filter (\<lambda>c. c \<notin> {42, 8226, 9679, 45, 9642}) content)"
    using strip_formatting_filter [of content] by (simp only: f)
  have b: "set (strip_formatting content) \<inter> {42, 8226, 9679, 45, 9642} = {}"
    using set_strip_formatting [of content] by (simp only: f)
  have c: "strip_formatting content = [] \<or>
      (\<not> isspace (hd (strip_formatting content)) \<and> \<not> isspace (last (strip_formatting content)))"
    unfolding strip_formatting_def by (rule strip_edges)
  show ?thesis using r a b c by blast
qed

lemma strip_formatting_due:
  "strip_formatting (ustr '' Due 2024-05-01: follow-up *ok* '') = ustr ''Due 20240501: followup ok''"
  by (simp add: strip_formatting_def formatting_characters_def replace_with_empty_def eval_defs)

lemma lower_due:
  "lower ascii_runtime (ustr ''Due 20240501: followup ok'') = ustr ''due 20240501: followup ok''"
  by (simp add: eval_defs)

lemma no_phrase_due:
  "\<not> list_ex (contains (ustr ''due 20240501: followup ok'')) bad_phrases"
  by (simp add: bad_phrases_def ustr_def)

theorem summary_without_formatting_witness:
  "invoke_model (demo_env\<lparr>invoke_model := \<lambda>body. Inr (ustr '' Due 2024-05-01: follow-up *ok* '')\<rparr>)
     (build_request (rt (demo_env\<lparr>invoke_model := \<lambda>body. Inr (ustr '' Due 2024-05-01: follow-up *ok* '')\<rparr>))
        (ustr ''Meeting at 3pm.'')) = Inr (ustr '' Due 2024-05-01: follow-up *ok* '')
   \<and> fst (generate_summary
        (demo_env\<lparr>invoke_model := \<lambda>body. Inr (ustr '' Due 2024-05-01: follow-up *ok* '')\<rparr>)
        (ustr ''Meeting at 3pm.'') empty_world) = Inr (ustr ''Due 20240501: followup ok'')
   \<and> 45 \<notin> set (ustr ''Due 20240501: followup ok'')"
proof -
  let ?E = "demo_env\<lparr>invoke_model := \<lambda>body. Inr (ustr '' Due 2024-05-01: follow-up *ok* '')\<rparr>"
  have h: "invoke_model ?E (build_request (rt ?E) (ustr ''Meeting at 3pm.''))
             = Inr (ustr '' Due 2024-05-01: follow-up *ok* '')"
    by simp
  have rt: "rt ?E = ascii_runtime" by (simp add: demo_env_def)
  have n: "\<not> (\<exists>p \<in> set bad_phrases. sublist p
      (lower (rt ?E) (strip_formatting (ustr '' Due 2024-05-01: follow-up *ok* ''))))"
    unfolding rt strip_formatting_due lower_due
    using no_phrase_due by (auto simp: list_ex_iff contains_sublist)
  from summary_without_formatting [OF h n, of empty_world]
  obtain s where s: "fst (generate_summary ?E (ustr ''Meeting at 3pm.'') empty_world) = Inr s"
    and e: "s = strip (filter (\<lambda>c. c \<notin> {42, 8226, 9679, 45, 9642}) (ustr '' Due 2024-05-01: follow-up *ok* ''))"
    and d: "set s \<inter> {42, 8226, 9679, 45, 9642} = {}"
    by blast
  have "strip (filter (\<lambda>c. c \<notin> {42, 8226, 9679, 45, 9642}) (ustr '' Due 2024-05-01: follow-up *ok* ''))
          = ustr ''Due 20240501: followup ok''"
    by (simp add: eval_defs)
  with e have "s = ustr ''Due 20240501: followup ok''" by simp
  with s d h show ?thesis by auto
qed

section \<open>What the summarizer sends to the generation service\<close>

lemma splitlines_from_no_break:
  "list_all (\<lambda>c. \<not> is_linebreak c) s \<Longrightarrow>
     splitlines_from cur s = (if cur @ s = [] then [] else [cur @ s])"
  by (induction s arbitrary: cur) auto

lemma dots: "ustr ''...'' = [46, 46, 46]"
  by (simp add: ustr_def)

lemma strip_spaces_dots: "strip (replicate n 32 @ [46, 46, 46]) = [46, 46, 46]"
proof -
  have "dropWhile isspace (replicate n 32 @ [46, 46, 46]) = dropWhile isspace [46, 46, 46]"
    by (rule dropWhile_append2) (simp add: isspace_def)
  then show ?thesis by (simp add: strip_def) (simp add: isspace_def)
qed

lemma clean_spaces_dots:
  "clean_extracted_text ascii_runtime (replicate n 32 @ ustr ''...'') = ustr ''...''"
proof -
  have "list_all (\<lambda>c. \<not> is_linebreak c) (replicate n 32 @ [46, 46, 46])"
    by (simp add: list_all_iff is_linebreak_def)
  then have "splitlines (replicate n 32 @ [46, 46, 46]) = [replicate n 32 @ [46, 46, 46]]"
    by (simp add: splitlines_def splitlines_from_no_break)
  moreover have "clean_loop ascii_runtime [] [replicate n 32 @ [46, 46, 46]] = [[46, 46, 46]]"
    by (simp add: strip_spaces_dots Let_def lower_def is_ascii_def ascii_lower_def
        obj_pattern_def isdecimal_def ustr_def)
  ultimately show ?thesis
    by (simp add: clean_extracted_text_def dots printable_def)
qed

text \<open>
  Claim C3, as amended. For every input text longer than 10,000 characters,
  \<open>generate_summary\<close> sends one request to the generation service, and the document
  text in it is the sanitizer applied to the first 10,000 characters of the input
  followed by the marker \<open>...\<close> (the second sanitizer pass runs after the cut, so
  the text sent is not always those characters verbatim).
\<close>

theorem truncated_text_is_sanitized:
  assumes "length text_content > 10000"
  shows "invocations (snd (generate_summary E text_content w))
           = invocations w @ [build_request (rt E) text_content]
         \<and> user (build_request (rt E) text_content)
           = prompt_header @
             clean_extracted_text (rt E) (take 10000 text_content @ ustr ''...'') @ [10]"
  using assms
  by (simp add: generate_summary_def build_request_def truncate_text_def max_length_def
      prompt_user_def Let_def split: sum.splits)

theorem truncated_text_is_sanitized_witness:
  "length (replicate 10000 (32::nat) @ [120]) > 10000
   \<and> invocations (snd (generate_summary demo_env (replicate 10000 32 @ [120]) empty_world))
       = invocations empty_world @ [build_request (rt demo_env) (replicate 10000 32 @ [120])]
   \<and> user (build_request (rt demo_env) (replicate 10000 32 @ [120]))
       = prompt_header @ ustr ''...'' @ [10]"
proof -
  have l: "length (replicate 10000 (32::nat) @ [120]) > 10000" by simp
  have rt: "rt demo_env = ascii_runtime" by (simp add: demo_env_def)
  have c: "clean_extracted_text (rt demo_env) (take 10000 (replicate 10000 32 @ [120]) @ ustr ''...'')
            = ustr ''...''"
    unfolding rt by (simp add: clean_spaces_dots)
  show ?thesis
    using truncated_text_is_sanitized [OF l, of demo_env empty_world] l c by (simp only: simp_thms)
qed

text \<open>
  Claim C3 as stated fails: for 10,000 spaces followed by \<open>x\<close> the first 10,000
  characters plus the marker are 10,000 spaces and \<open>...\<close>, but the text sent is
  \<open>...\<close> alone, the sanitizer having trimmed the line.
\<close>

theorem truncated_text_not_verbatim:
  "length (replicate 10000 (32::nat) @ [120]) > 10000
   \<and> user (build_request ascii_runtime (replicate 10000 32 @ [120]))
       = prompt_header @ ustr ''...'' @ [10]
   \<and> user (build_request ascii_runtime (replicate 10000 32 @ [120]))
       \<noteq> prompt_header @ (take 10000 (replicate 10000 32 @ [120]) @ ustr ''...'') @ [10]"
proof -
  have c: "clean_extracted_text ascii_runtime (replicate 10000 32 @ ustr ''...'') = ustr ''...''"
    by (rule clean_spaces_dots)
  have u: "user (build_request ascii_runtime (replicate 10000 32 @ [120]))
       = prompt_header @ ustr ''...'' @ [10]"
    by (simp add: build_request_def truncate_text_def max_length_def prompt_user_def c)
  have "length (ustr ''...'') \<noteq> length (take 10000 (replicate 10000 (32::nat) @ [120]) @ ustr ''...'')"
    by (simp add: ustr_def)
  then have "ustr ''...'' \<noteq> take 10000 (replicate 10000 (32::nat) @ [120]) @ ustr ''...''"
    by metis
  then show ?thesis using u by simp
qed

section \<open>Characters that the summarizer removes\<close>

text \<open>
  Claim C9, as amended. For every input and every response of the generation service,
  the output of \<open>generate_summary\<close> contains no asterisk and none of the bullet
  characters U+2022, U+25CF and U+25AA, and it contains a hyphen-minus only when it is
  the fixed four-point fallback text, which has one. (The markdown heading character
  and bullet characters outside that list are not deleted.)
\<close>

theorem summary_without_asterisks_and_bullets:
  assumes "invoke_model E (build_request (rt E) text_content) = Inr content"
  shows "\<exists>s. fst (generate_summary E text_content w) = Inr s
           \<and> set s \<inter> {42, 8226, 9679, 9642} = {}
           \<and> (45 \<in> set s \<longrightarrow>
                s = ustr ''1. The document text could not be read in a clear way.'' @ [10] @
                    ustr ''2. No reliable topics, facts, or dates can be identified from the available data.'' @ [10] @
                    ustr ''3. Consider uploading a text-based or searchable PDF version of the file.'' @ [10] @
                    ustr ''4. If the file is scanned, try running OCR locally and uploading the extracted text.'')"
proof -
  have g: "set generic_failure_summary \<inter> {42, 8226, 9679, 9642} = {}"
    by (simp add: generic_failure_summary_def ustr_def)
  have f: "set (strip_formatting content) \<inter> {42, 8226, 9679, 9642} = {}"
    and h: "45 \<notin> set (strip_formatting content)"
    using set_strip_formatting [of content] by (auto simp: formatting_characters_def)
  show ?thesis
  proof (cases "list_ex (contains (lower (rt E) (strip_formatting content))) bad_phrases")
    case True
    with assms have "fst (generate_summary E text_content w) = Inr generic_failure_summary"
      by (simp add: generate_summary_def postprocess_def Let_def)
    with g show ?thesis by (simp add: generic_failure_summary_def)
  next
    case False
    with assms have "fst (generate_summary E text_content w) = Inr (strip_formatting content)"
      by (simp add: generate_summary_def postprocess_def Let_def)
    with f h show ?thesis by simp
  qed
qed

lemma cleaned_bullets:
  "strip_formatting (ustr ''* a '' @ 8226 # ustr '' b '' @ 9679 # ustr '' c '' @ 9642 # ustr '' d - e'')
     = ustr ''a  b  c  d  e''"
  by (simp add: strip_formatting_def formatting_characters_def replace_with_empty_def eval_defs)

lemma no_phrase_bullets:
  "\<not> list_ex (contains (lower ascii_runtime (ustr ''a  b  c  d  e''))) bad_phrases"
  by (simp add: bad_phrases_def eval_defs)

theorem summary_without_asterisks_and_bullets_witness:
  "invoke_model
     (demo_env\<lparr>invoke_model := \<lambda>body. Inr (ustr ''* a '' @ 8226 # ustr '' b '' @ 9679 #
        ustr '' c '' @ 9642 # ustr '' d - e'')\<rparr>)
     (build_request (rt (demo_env\<lparr>invoke_model := \<lambda>body. Inr (ustr ''* a '' @ 8226 #
        ustr '' b '' @ 9679 # ustr '' c '' @ 9642 # ustr '' d - e'')\<rparr>))
        (ustr ''Meeting at 3pm.''))
     = Inr (ustr ''* a '' @ 8226 # ustr '' b '' @ 9679 # ustr '' c '' @ 9642 # ustr '' d - e'')
   \<and> fst (generate_summary
        (demo_env\<lparr>invoke_model := \<lambda>body. Inr (ustr ''* a '' @ 8226 # ustr '' b '' @ 9679 #
           ustr '' c '' @ 9642 # ustr '' d - e'')\<rparr>)
        (ustr ''Meeting at 3pm.'') empty_world) = Inr (ustr ''a  b  c  d  e'')
   \<and> set (ustr ''a  b  c  d  e'') \<inter> {42, 8226, 9679, 9642} = {}
   \<and> 45 \<notin> set (ustr ''a  b  c  d  e'')"
proof -
  let ?E = "demo_env\<lparr>invoke_model := \<lambda>body. Inr (ustr ''* a '' @ 8226 # ustr '' b '' @ 9679 #
           ustr '' c '' @ 9642 # ustr '' d - e'')\<rparr>"
  have h: "invoke_model ?E (build_request (rt ?E) (ustr ''Meeting at 3pm.''))
     = Inr (ustr ''* a '' @ 8226 # ustr '' b '' @ 9679 # ustr '' c '' @ 9642 # ustr '' d - e'')"
    by simp
  have rt: "rt ?E = ascii_runtime" by (simp add: demo_env_def)
  have v: "fst (generate_summary ?E (ustr ''Meeting at 3pm.'') empty_world) = Inr (ustr ''a  b  c  d  e'')"
    using no_phrase_bullets
    by (simp add: generate_summary_def postprocess_def cleaned_bullets demo_env_def)
  from summary_without_asterisks_and_bullets [OF h, of empty_world]
  obtain s where s: "fst (generate_summary ?E (ustr ''Meeting at 3pm.'') empty_world) = Inr s"
    and d: "set s \<inter> {42, 8226, 9679, 9642} = {}"
    by blast
  from s v have e: "s = ustr ''a  b  c  d  e''" by simp
  have m: "45 \<notin> set (ustr ''a  b  c  d  e'')" by (simp add: ustr_def)
  from h v d m show ?thesis unfolding e by (intro conjI)
qed

lemma strip_formatting_heading:
  "strip_formatting (ustr ''# Summary'') = ustr ''# Summary''"
  by (simp add: strip_formatting_def formatting_characters_def replace_with_empty_def eval_defs)

lemma no_phrase_heading:
  "\<not> list_ex (contains (lower ascii_runtime (ustr ''# Summary''))) bad_phrases"
  by (simp add: bad_phrases_def eval_defs)

lemma strip_formatting_triangle:
  "strip_formatting (8227 # ustr '' item'') = 8227 # ustr '' item''"
  by (simp add: strip_formatting_def formatting_characters_def replace_with_empty_def eval_defs)

lemma no_phrase_triangle:
  "\<not> list_ex (contains (lower ascii_runtime (8227 # ustr '' item''))) bad_phrases"
  by (simp add: bad_phrases_def eval_defs ascii_runtime_def)

lemma strip_formatting_binary:
  "strip_formatting (ustr ''This is raw, binary data.'') = ustr ''This is raw, binary data.''"
  by (simp add: strip_formatting_def formatting_characters_def replace_with_empty_def eval_defs)

lemma phrase_binary:
  "list_ex (contains (lower ascii_runtime (ustr ''This is raw, binary data.''))) bad_phrases"
  by (simp add: bad_phrases_def eval_defs)

text \<open>
  Claim C9 as stated fails, for a plain-text input under the size budget: a response
  that starts with the markdown heading character \<open>#\<close> (code point 35) is returned
  with it; so is one that starts with the bullet U+2023, which is not in the list of
  deleted characters; and a response with a banned phrase is replaced by the fallback
  text, which contains a hyphen-minus (code point 45).
\<close>

theorem unlisted_characters_survive:
  "length (ustr ''Meeting at 3pm.'') < max_length
   \<and> fst (generate_summary (demo_env\<lparr>invoke_model := \<lambda>body. Inr (ustr ''# Summary'')\<rparr>)
        (ustr ''Meeting at 3pm.'') empty_world) = Inr (35 # ustr '' Summary'')
   \<and> fst (generate_summary (demo_env\<lparr>invoke_model := \<lambda>body. Inr (8227 # ustr '' item'')\<rparr>)
        (ustr ''Meeting at 3pm.'') empty_world) = Inr (8227 # ustr '' item'')
   \<and> fst (generate_summary
        (demo_env\<lparr>invoke_model := \<lambda>body. Inr (ustr ''This is raw, binary data.'')\<rparr>)
        (ustr ''Meeting at 3pm.'') empty_world)
     = Inr (ustr ''1. The document text could not be read in a clear way.'' @ [10] @
            ustr ''2. No reliable topics, facts, or dates can be identified from the available data.'' @ [10] @
            ustr ''3. Consider uploading a text-based or searchable PDF version of the file.'' @ [10] @
            ustr ''4. If the file is scanned, try running OCR locally and uploading the extracted text.'')
   \<and> 45 \<in> set (ustr ''1. The document text could not be read in a clear way.'' @ [10] @
            ustr ''2. No reliable topics, facts, or dates can be identified from the available data.'' @ [10] @
            ustr ''3. Consider uploading a text-based or searchable PDF version of the file.'' @ [10] @
            ustr ''4. If the file is scanned, try running OCR locally and uploading the extracted text.'')"
proof -
  have a: "length (ustr ''Meeting at 3pm.'') < max_length"
    by (simp add: max_length_def ustr_def)
  have b: "fst (generate_summary (demo_env\<lparr>invoke_model := \<lambda>body. Inr (ustr ''# Summary'')\<rparr>)
        (ustr ''Meeting at 3pm.'') empty_world) = Inr (35 # ustr '' Summary'')"
    using no_phrase_heading
    by (simp add: generate_summary_def postprocess_def strip_formatting_heading demo_env_def)
       (simp add: ustr_def)
  have c: "fst (generate_summary (demo_env\<lparr>invoke_model := \<lambda>body. Inr (8227 # ustr '' item'')\<rparr>)
        (ustr ''Meeting at 3pm.'') empty_world) = Inr (8227 # ustr '' item'')"
    using no_phrase_triangle
    by (simp add: generate_summary_def postprocess_def strip_formatting_triangle demo_env_def)
  have d: "fst (generate_summary
        (demo_env\<lparr>invoke_model := \<lambda>body. Inr (ustr ''This is raw, binary data.'')\<rparr>)
        (ustr ''Meeting at 3pm.'') empty_world)
     = Inr (ustr ''1. The document text could not be read in a clear way.'' @ [10] @
            ustr ''2. No reliable topics, facts, or dates can be identified from the available data.'' @ [10] @
            ustr ''3. Consider uploading a text-based or searchable PDF version of the file.'' @ [10] @
            ustr ''4. If the file is scanned, try running OCR locally and uploading the extracted text.'')"
    using phrase_binary
    by (simp add: generate_summary_def postprocess_def strip_formatting_binary demo_env_def
        generic_failure_summary_def)
  have e: "45 \<in> set (ustr ''1. The document text could not be read in a clear way.'' @ [10] @
            ustr ''2. No reliable topics, facts, or dates can be identified from the available data.'' @ [10] @
            ustr ''3. Consider uploading a text-based or searchable PDF version of the file.'' @ [10] @
            ustr ''4. If the file is scanned, try running OCR locally and uploading the extracted text.'')"
    by (simp add: ustr_def)
  from a b c d e show ?thesis by (intro conjI)
qed

section \<open>The line rule of the sanitizer\<close>

lemma re_match_Lit:
  "re_match (Lit a # as) s \<longleftrightarrow> (\<exists>r. s = a # r \<and> re_match as r)"
  by (cases s) auto

lemma re_match_Plus:
  "re_match (Plus p # as) s \<longleftrightarrow>
     (\<exists>x r. x \<noteq> [] \<and> list_all p x \<and> s = x @ r \<and> re_match as r)"
proof (induction s)
  case Nil
  then show ?case by simp
next
  case (Cons c cs)
  show ?case
  proof
    assume "re_match (Plus p # as) (c # cs)"
    then have pc: "p c" and d: "re_match (Plus p # as) cs \<or> re_match as cs" by simp_all
    from d show "\<exists>x r. x \<noteq> [] \<and> list_all p x \<and> c # cs = x @ r \<and> re_match as r"
    proof
      assume "re_match (Plus p # as) cs"
      with Cons.IH obtain x r where "x \<noteq> []" "list_all p x" "cs = x @ r" "re_match as r"
        by blast
      with pc have "c # x \<noteq> [] \<and> list_all p (c # x) \<and> c # cs = (c # x) @ r \<and> re_match as r"
        by simp
      then show ?thesis by blast
    next
      assume "re_match as cs"
      with pc have "[c] \<noteq> [] \<and> list_all p [c] \<and> c # cs = [c] @ cs \<and> re_match as cs"
        by simp
      then show ?thesis by blast
    qed
  next
    assume "\<exists>x r. x \<noteq> [] \<and> list_all p x \<and> c # cs = x @ r \<and> re_match as r"
    then obtain x r where x: "x \<noteq> []" "list_all p x" "c # cs = x @ r" "re_match as r"
      by blast
    then obtain x' where xc: "x = c # x'" by (cases x) auto
    with x have pc: "p c" and px: "list_all p x'" and cs: "cs = x' @ r" by simp_all
    show "re_match (Plus p # as) (c # cs)"
    proof (cases "x' = []")
      case True
      with cs x pc show ?thesis by simp
    next
      case False
      with px cs x(4) have "re_match (Plus p # as) cs" using Cons.IH by blast
      with pc show ?thesis by simp
    qed
  qed
qed


lemma re_match_obj_tail:
  "re_match [Lit 111, Lit 98, Lit 106] r \<longleftrightarrow> (\<exists>e. r = ustr ''obj'' @ e \<and> (e = [] \<or> e = [10]))"
  by (auto simp: re_match_Lit ustr_def)

lemma re_match_PlusI:
  "x \<noteq> [] \<Longrightarrow> list_all p x \<Longrightarrow> re_match as r \<Longrightarrow> re_match (Plus p # as) (x @ r)"
  using re_match_Plus [of p as "x @ r"] by blast

lemma re_match_PlusE:
  assumes "re_match (Plus p # as) s"
  obtains x r where "x \<noteq> []" "list_all p x" "s = x @ r" "re_match as r"
  using assms re_match_Plus [of p as s] by blast

lemma re_match_obj_pattern:
  "re_match (obj_pattern R) s \<longleftrightarrow>
     (\<exists>d1 w1 d2 w2 e.
        s = d1 @ w1 @ d2 @ w2 @ ustr ''obj'' @ e \<and> (e = [] \<or> e = [10])
        \<and> d1 \<noteq> [] \<and> list_all (isdecimal R) d1 \<and> w1 \<noteq> [] \<and> list_all isspace w1
        \<and> d2 \<noteq> [] \<and> list_all (isdecimal R) d2 \<and> w2 \<noteq> [] \<and> list_all isspace w2)"
  (is "?L \<longleftrightarrow> ?R")
proof
  assume ?L
  then have m0: "re_match (Plus (isdecimal R) #
      [Plus isspace, Plus (isdecimal R), Plus isspace, Lit 111, Lit 98, Lit 106]) s"
    by (simp only: obj_pattern_def)
  from m0 obtain d1 r1 where 1: "d1 \<noteq> []" "list_all (isdecimal R) d1" "s = d1 @ r1"
      and m1: "re_match [Plus isspace, Plus (isdecimal R), Plus isspace, Lit 111, Lit 98, Lit 106] r1"
    by (rule re_match_PlusE)
  from m1 obtain w1 r2 where 2: "w1 \<noteq> []" "list_all isspace w1" "r1 = w1 @ r2"
      and m2: "re_match [Plus (isdecimal R), Plus isspace, Lit 111, Lit 98, Lit 106] r2"
    by (rule re_match_PlusE)
  from m2 obtain d2 r3 where 3: "d2 \<noteq> []" "list_all (isdecimal R) d2" "r2 = d2 @ r3"
      and m3: "re_match [Plus isspace, Lit 111, Lit 98, Lit 106] r3"
    by (rule re_match_PlusE)
  from m3 obtain w2 r4 where 4: "w2 \<noteq> []" "list_all isspace w2" "r3 = w2 @ r4"
      and m4: "re_match [Lit 111, Lit 98, Lit 106] r4"
    by (rule re_match_PlusE)
  from m4 obtain e where 5: "r4 = ustr ''obj'' @ e" "e = [] \<or> e = [10]"
    using re_match_obj_tail [of r4] by blast
  have "s = d1 @ w1 @ d2 @ w2 @ ustr ''obj'' @ e"
    by (simp only: 1(3) 2(3) 3(3) 4(3) 5(1))
  with 1(1,2) 2(1,2) 3(1,2) 4(1,2) 5(2) show ?R by blast
next
  assume ?R
  then obtain d1 w1 d2 w2 e where s: "s = d1 @ w1 @ d2 @ w2 @ ustr ''obj'' @ e"
      and e: "e = [] \<or> e = [10]"
      and d1: "d1 \<noteq> []" "list_all (isdecimal R) d1" and w1: "w1 \<noteq> []" "list_all isspace w1"
      and d2: "d2 \<noteq> []" "list_all (isdecimal R) d2" and w2: "w2 \<noteq> []" "list_all isspace w2"
    by blast
  have m4: "re_match [Lit 111, Lit 98, Lit 106] (ustr ''obj'' @ e)"
    using re_match_obj_tail [of "ustr ''obj'' @ e"] e by blast
  have m3: "re_match [Plus isspace, Lit 111, Lit 98, Lit 106] (w2 @ ustr ''obj'' @ e)"
    using w2 m4 by (rule re_match_PlusI)
  have m2: "re_match [Plus (isdecimal R), Plus isspace, Lit 111, Lit 98, Lit 106]
              (d2 @ w2 @ ustr ''obj'' @ e)"
    using d2 m3 by (rule re_match_PlusI)
  have m1: "re_match [Plus isspace, Plus (isdecimal R), Plus isspace, Lit 111, Lit 98, Lit 106]
              (w1 @ d2 @ w2 @ ustr ''obj'' @ e)"
    using w1 m2 by (rule re_match_PlusI)
  have "re_match [Plus (isdecimal R), Plus isspace, Plus (isdecimal R), Plus isspace,
      Lit 111, Lit 98, Lit 106] (d1 @ w1 @ d2 @ w2 @ ustr ''obj'' @ e)"
    using d1 m1 by (rule re_match_PlusI)
  then show ?L by (simp only: obj_pattern_def s)
qed


lemma re_match_obj_stripped:
  assumes "s \<noteq> []" and "\<not> isspace (last s)"
  shows "re_match (obj_pattern R) s = digits_ws_digits_ws_obj R s"
proof
  assume "re_match (obj_pattern R) s"
  then obtain d1 w1 d2 w2 e where s: "s = d1 @ w1 @ d2 @ w2 @ ustr ''obj'' @ e"
      and e: "e = [] \<or> e = [10]"
      and r: "d1 \<noteq> []" "list_all (isdecimal R) d1" "w1 \<noteq> []" "list_all isspace w1"
        "d2 \<noteq> []" "list_all (isdecimal R) d2" "w2 \<noteq> []" "list_all isspace w2"
    unfolding re_match_obj_pattern by blast
  have "e \<noteq> [10]"
  proof
    assume "e = [10]"
    with s have "last s = 10" by simp
    with assms(2) show False by (simp add: isspace_def)
  qed
  with e s have "s = d1 @ w1 @ d2 @ w2 @ ustr ''obj''" by simp
  with r show "digits_ws_digits_ws_obj R s"
    unfolding digits_ws_digits_ws_obj_def by blast
next
  assume "digits_ws_digits_ws_obj R s"
  then obtain d1 w1 d2 w2 where "s = d1 @ w1 @ d2 @ w2 @ ustr ''obj'' @ []"
      and "d1 \<noteq> []" "list_all (isdecimal R) d1" "w1 \<noteq> []" "list_all isspace w1"
        "d2 \<noteq> []" "list_all (isdecimal R) d2" "w2 \<noteq> []" "list_all isspace w2"
    unfolding digits_ws_digits_ws_obj_def by auto
  then show "re_match (obj_pattern R) s"
    unfolding re_match_obj_pattern by blast
qed

lemma clean_loop_step:
  "clean_loop R acc (line # lines) = clean_loop R (acc @ sanitize_line (actual_drop R) line) lines"
proof (cases "strip line = []")
  case True
  then show ?thesis by (simp add: sanitize_line_def)
next
  case False
  with strip_edges [of line] have "\<not> isspace (last (strip line))" by blast
  with False have "re_match (obj_pattern R) (strip line) = digits_ws_digits_ws_obj R (strip line)"
    by (rule re_match_obj_stripped)
  with False show ?thesis
    by (simp add: sanitize_line_def actual_drop_def Let_def)
qed

lemma clean_loop_concat:
  "clean_loop R acc lines = acc @ concat (map (sanitize_line (actual_drop R)) lines)"
proof (induction lines arbitrary: acc)
  case Nil
  then show ?case by simp
next
  case (Cons line lines)
  show ?case
    by (simp only: clean_loop_step Cons.IH) simp
qed

text \<open>
  Claim C7, as amended. The sanitizer works line by line: a blank line stays as an
  empty line; a non-blank line is trimmed and then dropped if and only if, whatever the
  case, it starts with the PDF magic marker or with the end-of-file marker, or it is
  digits, whitespace, digits, whitespace and \<open>obj\<close> (each whitespace a run of one or
  more whitespace characters), or, whatever the case, it is one of the container
  keywords; the surviving lines are joined with newlines, and the character filter is
  applied to the result.
\<close>

theorem sanitize_line_rule:
  "join_nl (clean_loop R [] (splitlines raw)) = sanitize_lines (actual_drop R) raw
   \<and> clean_extracted_text R raw = filter printable (sanitize_lines (actual_drop R) raw)"
  by (simp add: clean_extracted_text_def sanitize_lines_def clean_loop_concat)


lemma clean_mixed_lines:
  "clean_extracted_text ascii_runtime
     (ustr ''%PDF-1.4'' @ [10] @ ustr ''12  0'' @ [9] @ ustr ''obj'' @ [10, 10] @
      ustr ''  Hello  '' @ [10] @ ustr ''EndStream'' @ [10] @ ustr ''%%EOF'')
   = 10 # ustr ''Hello''"
  by (simp add: clean_extracted_text_def eval_defs)

theorem sanitize_line_rule_witness:
  "clean_extracted_text ascii_runtime
     (ustr ''%PDF-1.4'' @ [10] @ ustr ''12  0'' @ [9] @ ustr ''obj'' @ [10, 10] @
      ustr ''  Hello  '' @ [10] @ ustr ''EndStream'' @ [10] @ ustr ''%%EOF'')
   = 10 # ustr ''Hello''
   \<and> filter printable (sanitize_lines (actual_drop ascii_runtime)
     (ustr ''%PDF-1.4'' @ [10] @ ustr ''12  0'' @ [9] @ ustr ''obj'' @ [10, 10] @
      ustr ''  Hello  '' @ [10] @ ustr ''EndStream'' @ [10] @ ustr ''%%EOF''))
   = 10 # ustr ''Hello''"
  using sanitize_line_rule [of ascii_runtime
     "ustr ''%PDF-1.4'' @ [10] @ ustr ''12  0'' @ [9] @ ustr ''obj'' @ [10, 10] @
      ustr ''  Hello  '' @ [10] @ ustr ''EndStream'' @ [10] @ ustr ''%%EOF''"]
    clean_mixed_lines
  by (simp only: simp_thms)

lemma described_keeps_upper_keyword:
  "filter printable (sanitize_lines (described_drop ascii_runtime) (ustr ''STREAM'')) = ustr ''STREAM''"
  by (simp add: sanitize_lines_def sanitize_line_def described_drop_def
      digits_space_digits_space_obj_def eval_defs)

lemma described_keeps_wide_obj:
  "filter printable (sanitize_lines (described_drop ascii_runtime) (ustr ''1  0 obj'')) = ustr ''1  0 obj''"
  by (simp add: sanitize_lines_def sanitize_line_def described_drop_def
      digits_space_digits_space_obj_def eval_defs)

lemma described_drops_obj:
  "filter printable (sanitize_lines (described_drop ascii_runtime) (ustr ''1 0 obj'')) = []"
  by (simp add: sanitize_lines_def sanitize_line_def described_drop_def
      digits_space_digits_space_obj_def eval_defs)

text \<open>
  Claim C7 as stated fails: by its rule the line \<open>STREAM\<close> is not exactly a container
  keyword and the line \<open>1  0 obj\<close>, with two spaces, is not digits, one space, digits,
  one space and \<open>obj\<close>, so both would survive; the sanitizer drops both.
\<close>

theorem sanitize_drops_more_than_described:
  "clean_extracted_text ascii_runtime (ustr ''STREAM'') = []
   \<and> filter printable (sanitize_lines (described_drop ascii_runtime) (ustr ''STREAM''))
       = ustr ''STREAM''
   \<and> clean_extracted_text ascii_runtime (ustr ''1  0 obj'') = []
   \<and> filter printable (sanitize_lines (described_drop ascii_runtime) (ustr ''1  0 obj''))
       = ustr ''1  0 obj''
   \<and> ustr ''STREAM'' \<noteq> [] \<and> ustr ''1  0 obj'' \<noteq> []"
proof -
  have "clean_extracted_text ascii_runtime (ustr ''STREAM'') = []"
    by (simp add: clean_extracted_text_def eval_defs)
  moreover have "clean_extracted_text ascii_runtime (ustr ''1  0 obj'') = []"
    by (simp add: clean_extracted_text_def eval_defs)
  moreover have "ustr ''STREAM'' \<noteq> [] \<and> ustr ''1  0 obj'' \<noteq> []"
    by (simp add: ustr_def)
  ultimately show ?thesis
    using described_keeps_upper_keyword described_keeps_wide_obj by (simp only: simp_thms)
qed

section \<open>The fallback of the extractor\<close>

lemma clean_scenario:
  "clean_extracted_text R
     (ustr ''%PDF-1.4'' @ [10] @ ustr ''1 0 obj'' @ [10] @ ustr ''Hello World'' @ [10] @
      ustr ''endobj'' @ [10] @ ustr ''%%EOF'') = ustr ''Hello World''"
  by (simp add: clean_extracted_text_def eval_defs)

text \<open>
  Claim C8. For a key whose extension is not one of the plain-text ones, when the
  text-detection service reports the format as unsupported and the object can be read,
  \<open>extract_text\<close> does not fail: it returns the sanitizer applied to the lossy UTF-8
  decoding of the object's bytes. In particular, when the bytes decode to the five
  lines \<open>%PDF-1.4\<close>, \<open>1 0 obj\<close>, \<open>Hello World\<close>, \<open>endobj\<close>, \<open>%%EOF\<close>, the extracted
  text is exactly \<open>Hello World\<close>.
\<close>

theorem unsupported_format_fallback:
  assumes "splitext_ext (lower (rt E) key) \<notin> set plain_extensions"
    and "detect_document_text E bucket key = Inl e"
    and "exn_class e = UnsupportedDocumentException"
    and "get_object E bucket key = Inr data"
  shows "extract_text E bucket key = Inr (clean_extracted_text (rt E) (utf8_ignore (rt E) data))
    \<and> (utf8_ignore (rt E) data =
          ustr ''%PDF-1.4'' @ [10] @ ustr ''1 0 obj'' @ [10] @ ustr ''Hello World'' @ [10] @
          ustr ''endobj'' @ [10] @ ustr ''%%EOF''
        \<longrightarrow> extract_text E bucket key = Inr (ustr ''Hello World''))"
proof -
  have x: "extract_text E bucket key = Inr (clean_extracted_text (rt E) (utf8_ignore (rt E) data))"
    using assms by (simp add: extract_text_def extract_body_def Let_def)
  show ?thesis
    using x clean_scenario [of "rt E"] by simp
qed

lemma ext_report: "splitext_ext (lower ascii_runtime (ustr ''report.pdf'')) = ustr ''.pdf''"
  by (simp add: splitext_ext_def eval_defs)

theorem unsupported_format_fallback_witness:
  "splitext_ext (lower (rt pdf_env) (ustr ''report.pdf'')) \<notin> set plain_extensions
   \<and> detect_document_text pdf_env (ustr ''uploads'') (ustr ''report.pdf'')
       = Inl (Exn UnsupportedDocumentException (ustr ''unsupported document''))
   \<and> utf8_ignore (rt pdf_env) (''%PDF-1.4'' @ [CHR 0x0A] @ ''1 0 obj'' @ [CHR 0x0A] @
        ''Hello World'' @ [CHR 0x0A] @ ''endobj'' @ [CHR 0x0A] @ ''%%EOF'')
       = ustr ''%PDF-1.4'' @ [10] @ ustr ''1 0 obj'' @ [10] @ ustr ''Hello World'' @ [10] @
          ustr ''endobj'' @ [10] @ ustr ''%%EOF''
   \<and> extract_text pdf_env (ustr ''uploads'') (ustr ''report.pdf'') = Inr (ustr ''Hello World'')"
proof -
  have rt: "rt pdf_env = ascii_runtime" by (simp add: pdf_env_def demo_env_def)
  have a: "splitext_ext (lower (rt pdf_env) (ustr ''report.pdf'')) \<notin> set plain_extensions"
    unfolding rt ext_report by (simp add: plain_extensions_def ustr_def)
  have b: "detect_document_text pdf_env (ustr ''uploads'') (ustr ''report.pdf'')
       = Inl (Exn UnsupportedDocumentException (ustr ''unsupported document''))"
    by (simp add: pdf_env_def)
  have c: "exn_class (Exn UnsupportedDocumentException (ustr ''unsupported document''))
       = UnsupportedDocumentException"
    by simp
  have d: "get_object pdf_env (ustr ''uploads'') (ustr ''report.pdf'')
       = Inr (''%PDF-1.4'' @ [CHR 0x0A] @ ''1 0 obj'' @ [CHR 0x0A] @
        ''Hello World'' @ [CHR 0x0A] @ ''endobj'' @ [CHR 0x0A] @ ''%%EOF'')"
    by (simp add: pdf_env_def)
  have u: "utf8_ignore (rt pdf_env) (''%PDF-1.4'' @ [CHR 0x0A] @ ''1 0 obj'' @ [CHR 0x0A] @
        ''Hello World'' @ [CHR 0x0A] @ ''endobj'' @ [CHR 0x0A] @ ''%%EOF'')
       = ustr ''%PDF-1.4'' @ [10] @ ustr ''1 0 obj'' @ [10] @ ustr ''Hello World'' @ [10] @
          ustr ''endobj'' @ [10] @ ustr ''%%EOF''"
    unfolding rt by (simp add: ascii_runtime_def ustr_def)
  have "extract_text pdf_env (ustr ''uploads'') (ustr ''report.pdf'') = Inr (ustr ''Hello World'')"
    using unsupported_format_fallback [OF a b c d, THEN conjunct2] u by (rule mp)
  with a b u show ?thesis by (intro conjI)
qed

section \<open>The orchestrator's paths and effects\<close>

lemma store_metadata_effect:
  "put_item_calls (store_metadata E d k st ts a w) = put_item_calls w @ [metadata_item E d k st ts a]"
  "table (store_metadata E d k st ts a w) =
     (if put_item E (metadata_item E d k st ts a) = None
      then (table w)((d, ts) \<mapsto> metadata_item E d k st ts a) else table w)"
  "objects (store_metadata E d k st ts a w) = objects w"
  "published (store_metadata E d k st ts a w) = published w"
  "invocations (store_metadata E d k st ts a w) = invocations w"
  by (simp_all add: store_metadata_def Let_def split: option.splits)

lemma send_notification_effect:
  "put_item_calls (send_notification E d k sk st em w) = put_item_calls w"
  "table (send_notification E d k sk st em w) = table w"
  "objects (send_notification E d k sk st em w) = objects w"
  "invocations (send_notification E d k sk st em w) = invocations w"
  "published (send_notification E d k sk st em w) =
     (if publish E (notification_message E d k sk st em) = None
      then published w @ [notification_message E d k sk st em] else published w)"
  by (simp_all add: send_notification_def Let_def split: option.splits)

lemma on_exception_effect:
  "fst (on_exception E d k ts e w) = Inl e"
  "put_item_calls (snd (on_exception E d k ts e w)) =
     put_item_calls w @
       [metadata_item E (or_unknown d) (key_or_unknown k) FAILED ts (Some (Failure (exn_str e)))]"
  "table (snd (on_exception E d k ts e w)) =
     (if put_item E (metadata_item E (or_unknown d) (key_or_unknown k) FAILED ts
           (Some (Failure (exn_str e)))) = None
      then (table w)((or_unknown d, ts) \<mapsto>
             metadata_item E (or_unknown d) (key_or_unknown k) FAILED ts (Some (Failure (exn_str e))))
      else table w)"
  "objects (snd (on_exception E d k ts e w)) = objects w"
  "invocations (snd (on_exception E d k ts e w)) = invocations w"
  "published (snd (on_exception E d k ts e w)) =
     (if publish E (notification_message E (or_unknown d) (key_or_unknown k) None FAILED
           (Some (exn_str e))) = None
      then published w @ [notification_message E (or_unknown d) (key_or_unknown k) None FAILED
           (Some (exn_str e))]
      else published w)"
  by (simp_all add: on_exception_def Let_def store_metadata_effect send_notification_effect)

text \<open>The six ways through \<open>lambda_handler\<close>.\<close>

lemma handler_malformed:
  "lambda_handler E (Malformed e) w = on_exception E None None (utcnow_isoformat E AtStart) e w"
  by (simp add: lambda_handler_def)

lemma handler_extract_fails:
  assumes "extract_text E bucket key = Inl e"
  shows "lambda_handler E (S3Event bucket key) w =
           on_exception E (Some (uuid4 E)) (Some key) (utcnow_isoformat E AtStart) e
             (store_metadata E (uuid4 E) key PROCESSING (utcnow_isoformat E AtStart) None w)"
  using assms by (simp add: lambda_handler_def Let_def)

lemma handler_no_text:
  assumes "extract_text E bucket key = Inr text_content" and "strip text_content = []"
  shows "lambda_handler E (S3Event bucket key) w =
           on_exception E (Some (uuid4 E)) (Some key) (utcnow_isoformat E AtStart) no_text_error
             (store_metadata E (uuid4 E) key PROCESSING (utcnow_isoformat E AtStart) None w)"
  using assms by (simp add: lambda_handler_def Let_def)

lemma handler_generation_fails:
  assumes "extract_text E bucket key = Inr text_content" and "strip text_content \<noteq> []"
    and "invoke_model E (build_request (rt E) text_content) = Inl e"
  shows "lambda_handler E (S3Event bucket key) w =
           on_exception E (Some (uuid4 E)) (Some key) (utcnow_isoformat E AtStart) e
             ((store_metadata E (uuid4 E) key PROCESSING (utcnow_isoformat E AtStart) None w)
                \<lparr>invocations := invocations w @ [build_request (rt E) text_content]\<rparr>)"
  using assms
  by (simp add: lambda_handler_def generate_summary_def store_metadata_effect Let_def)

lemma handler_store_fails:
  assumes "extract_text E bucket key = Inr text_content" and "strip text_content \<noteq> []"
    and "invoke_model E (build_request (rt E) text_content) = Inr content"
    and "put_object E (summary_artifact E key (postprocess (rt E) content) text_content) = Some e"
  shows "lambda_handler E (S3Event bucket key) w =
           on_exception E (Some (uuid4 E)) (Some key) (utcnow_isoformat E AtStart) e
             ((store_metadata E (uuid4 E) key PROCESSING (utcnow_isoformat E AtStart) None w)
                \<lparr>invocations := invocations w @ [build_request (rt E) text_content]\<rparr>)"
  using assms
  by (simp add: lambda_handler_def generate_summary_def store_summary_def
      store_metadata_effect Let_def)

lemma handler_succeeds:
  assumes "extract_text E bucket key = Inr text_content" and "strip text_content \<noteq> []"
    and "invoke_model E (build_request (rt E) text_content) = Inr content"
    and "put_object E (summary_artifact E key (postprocess (rt E) content) text_content) = None"
  shows "lambda_handler E (S3Event bucket key) w =
           (Inr \<lparr> statusCode = 200, body_document_id = uuid4 E, body_document = key,
                  body_summary_key = ustr ''summaries/'' @ key @ ustr ''.summary.txt'',
                  body_summary_length = length (postprocess (rt E) content) \<rparr>,
            send_notification E (uuid4 E) key
              (Some (ustr ''summaries/'' @ key @ ustr ''.summary.txt'')) SUCCESS None
              (store_metadata E (uuid4 E) key COMPLETED (utcnow_isoformat E AtStart)
                 (Some (Completion (ustr ''summaries/'' @ key @ ustr ''.summary.txt'')
                    (length text_content) (length (postprocess (rt E) content))
                    (elapsed_seconds_str E)))
                 ((store_metadata E (uuid4 E) key PROCESSING (utcnow_isoformat E AtStart) None w)
                    \<lparr>invocations := invocations w @ [build_request (rt E) text_content],
                      objects := (objects w)(ustr ''summaries/'' @ key @ ustr ''.summary.txt''
                        \<mapsto> summary_artifact E key (postprocess (rt E) content) text_content)\<rparr>)))"
  using assms
  by (simp add: lambda_handler_def generate_summary_def store_summary_def
      store_metadata_effect Let_def)


section \<open>A document without text\<close>

text \<open>
  Claim C5. When the extracted text is empty or all whitespace, the handler raises the
  error for a document without text (the \<open>ValueError\<close> with the message
  \<open>No text could be extracted from the document.\<close>), the last item it hands to
  \<open>put_item\<close> is a FAILED record carrying that message, which the table holds under
  its key whenever the store accepts the write, and no request is sent to the
  generation service.
\<close>

theorem empty_text_fails_without_summarizer:
  assumes "extract_text E bucket key = Inr text_content" and "strip text_content = []"
  shows "fst (lambda_handler E (S3Event bucket key) w)
           = Inl (Exn ValueError (ustr ''No text could be extracted from the document.''))
     \<and> invocations (snd (lambda_handler E (S3Event bucket key) w)) = invocations w
     \<and> (\<exists>it. last (put_item_calls (snd (lambda_handler E (S3Event bucket key) w))) = it
           \<and> processing_status it = FAILED
           \<and> additional it
               = Some (Failure (ustr ''No text could be extracted from the document.''))
           \<and> (put_item E it = None \<longrightarrow>
                table (snd (lambda_handler E (S3Event bucket key) w))
                  (document_id it, processing_timestamp it) = Some it))"
  unfolding handler_no_text [OF assms]
  by (simp add: on_exception_effect store_metadata_effect no_text_error_def metadata_item_def)

lemma ext_notes: "splitext_ext (lower ascii_runtime (ustr ''notes.txt'')) = ustr ''.txt''"
  by (simp add: splitext_ext_def eval_defs)

lemma extract_blank:
  "extract_text blank_env (ustr ''uploads'') (ustr ''notes.txt'') = Inr (ustr ''  '' @ [10] @ ustr '' '')"
proof -
  have rt: "rt blank_env = ascii_runtime" by (simp add: blank_env_def demo_env_def)
  have p: "ustr ''.txt'' \<in> set plain_extensions" by (simp add: plain_extensions_def)
  have g: "get_object blank_env (ustr ''uploads'') (ustr ''notes.txt'')
             = Inr (''  '' @ [CHR 0x0A] @ '' '')"
    by (simp add: blank_env_def)
  have u: "utf8_strict ascii_runtime (''  '' @ [CHR 0x0A] @ '' '')
             = Some (ustr ''  '' @ [10] @ ustr '' '')"
    by (simp add: ascii_runtime_def ustr_def)
  show ?thesis
    by (simp only: extract_text_def extract_body_def rt ext_notes p g u Let_def
        if_True sum.case option.case)
qed

theorem empty_text_fails_without_summarizer_witness:
  "extract_text blank_env (ustr ''uploads'') (ustr ''notes.txt'')
     = Inr (ustr ''  '' @ [10] @ ustr '' '')
   \<and> strip (ustr ''  '' @ [10] @ ustr '' '') = []
   \<and> fst (lambda_handler blank_env (S3Event (ustr ''uploads'') (ustr ''notes.txt'')) empty_world)
       = Inl (Exn ValueError (ustr ''No text could be extracted from the document.''))
   \<and> invocations (snd (lambda_handler blank_env
         (S3Event (ustr ''uploads'') (ustr ''notes.txt'')) empty_world)) = []"
proof -
  have s: "strip (ustr ''  '' @ [10] @ ustr '' '') = []"
    by (simp add: eval_defs)
  have i: "invocations empty_world = []" by (simp add: empty_world_def)
  show ?thesis
    using empty_text_fails_without_summarizer [OF extract_blank s, of empty_world]
      extract_blank s i
    by (simp only: simp_thms)
qed


section \<open>A record write that fails\<close>

lemma extract_text_put_item:
  "extract_text (E\<lparr>put_item := f\<rparr>) bucket key = extract_text E bucket key"
  by (simp add: extract_text_def extract_body_def Let_def split: sum.splits option.splits)

lemma builders_put_item:
  "metadata_item (E\<lparr>put_item := f\<rparr>) d k st ts a = metadata_item E d k st ts a"
  "notification_message (E\<lparr>put_item := f\<rparr>) d k sk st em = notification_message E d k sk st em"
  "summary_artifact (E\<lparr>put_item := f\<rparr>) k s t = summary_artifact E k s t"
  by (simp_all add: metadata_item_def notification_message_def summary_artifact_def)

text \<open>
  Claim C4, as amended. A failure of \<open>put_item\<close> never reaches the orchestrator:
  \<open>store_metadata\<close> logs it and returns. Whatever the record store answers to the
  writes of an invocation, the handler's result (the response, or the exception it
  re-raises), the records it hands to \<open>put_item\<close>, the notifications, the stored
  artifacts and the generation requests are the same; only the table differs. So a
  failed record write produces no FAILED record and no failure notification of its
  own, and is not re-raised.
\<close>

theorem record_write_failure_is_swallowed:
  "fst (lambda_handler (E\<lparr>put_item := f\<rparr>) ev w) = fst (lambda_handler E ev w)
   \<and> put_item_calls (snd (lambda_handler (E\<lparr>put_item := f\<rparr>) ev w))
       = put_item_calls (snd (lambda_handler E ev w))
   \<and> published (snd (lambda_handler (E\<lparr>put_item := f\<rparr>) ev w))
       = published (snd (lambda_handler E ev w))
   \<and> objects (snd (lambda_handler (E\<lparr>put_item := f\<rparr>) ev w))
       = objects (snd (lambda_handler E ev w))
   \<and> invocations (snd (lambda_handler (E\<lparr>put_item := f\<rparr>) ev w))
       = invocations (snd (lambda_handler E ev w))"
  (is "?P ev")
proof (cases ev)
  case (Malformed e)
  show ?thesis
    unfolding Malformed handler_malformed
    by (simp add: on_exception_effect builders_put_item)
next
  case (S3Event bucket key)
  let ?E = "E\<lparr>put_item := f\<rparr>"
  show ?thesis
  proof (cases "extract_text E bucket key")
    case (Inl e)
    then have x: "extract_text ?E bucket key = Inl e" by (simp only: extract_text_put_item)
    show ?thesis
      unfolding S3Event handler_extract_fails [OF Inl] handler_extract_fails [OF x]
      by (simp add: on_exception_effect store_metadata_effect builders_put_item)
  next
    case (Inr text_content)
    then have x: "extract_text ?E bucket key = Inr text_content"
      by (simp only: extract_text_put_item)
    show ?thesis
    proof (cases "strip text_content = []")
      case True
      show ?thesis
        unfolding S3Event handler_no_text [OF Inr True] handler_no_text [OF x True]
        by (simp add: on_exception_effect store_metadata_effect builders_put_item)
    next
      case False
      show ?thesis
      proof (cases "invoke_model E (build_request (rt E) text_content)")
        case (Inl e)
        then have i: "invoke_model ?E (build_request (rt ?E) text_content) = Inl e" by simp
        show ?thesis
          unfolding S3Event handler_generation_fails [OF Inr False Inl]
            handler_generation_fails [OF x False i]
          by (simp add: on_exception_effect store_metadata_effect builders_put_item)
      next
        case content: (Inr content)
        then have i: "invoke_model ?E (build_request (rt ?E) text_content) = Inr content" by simp
        show ?thesis
        proof (cases "put_object E (summary_artifact E key (postprocess (rt E) content) text_content)")
          case None
          then have p: "put_object ?E
              (summary_artifact ?E key (postprocess (rt ?E) content) text_content) = None"
            by (simp add: builders_put_item)
          show ?thesis
            unfolding S3Event handler_succeeds [OF Inr False content None]
              handler_succeeds [OF x False i p]
            by (simp add: send_notification_effect store_metadata_effect builders_put_item)
        next
          case (Some e)
          then have p: "put_object ?E
              (summary_artifact ?E key (postprocess (rt ?E) content) text_content) = Some e"
            by (simp add: builders_put_item)
          show ?thesis
            unfolding S3Event handler_store_fails [OF Inr False content Some]
              handler_store_fails [OF x False i p]
            by (simp add: on_exception_effect store_metadata_effect builders_put_item)
        qed
      qed
    qed
  qed
qed


theorem record_write_failure_is_swallowed_witness:
  "fst (lambda_handler throttled_env (S3Event (ustr ''uploads'') (ustr ''notes.txt'')) empty_world)
     = fst (lambda_handler demo_env (S3Event (ustr ''uploads'') (ustr ''notes.txt'')) empty_world)
   \<and> put_item_calls (snd (lambda_handler throttled_env
         (S3Event (ustr ''uploads'') (ustr ''notes.txt'')) empty_world))
     = put_item_calls (snd (lambda_handler demo_env
         (S3Event (ustr ''uploads'') (ustr ''notes.txt'')) empty_world))
   \<and> published (snd (lambda_handler throttled_env
         (S3Event (ustr ''uploads'') (ustr ''notes.txt'')) empty_world))
     = published (snd (lambda_handler demo_env
         (S3Event (ustr ''uploads'') (ustr ''notes.txt'')) empty_world))"
  using record_write_failure_is_swallowed [where E = demo_env
      and f = "\<lambda>item. Some (Exn ServiceError (ustr ''ProvisionedThroughputExceededException''))"
      and ev = "S3Event (ustr ''uploads'') (ustr ''notes.txt'')" and w = empty_world]
  by (simp only: throttled_env_def simp_thms)

lemma extract_notes:
  "extract_text (demo_env\<lparr>put_item := f\<rparr>) (ustr ''uploads'') (ustr ''notes.txt'')
     = Inr (ustr ''Meeting at 3pm.'')"
proof -
  have rt: "rt demo_env = ascii_runtime" by (simp add: demo_env_def)
  have p: "ustr ''.txt'' \<in> set plain_extensions" by (simp add: plain_extensions_def)
  have g: "get_object demo_env (ustr ''uploads'') (ustr ''notes.txt'') = Inr ''Meeting at 3pm.''"
    by (simp add: demo_env_def)
  have u: "utf8_strict ascii_runtime ''Meeting at 3pm.'' = Some (ustr ''Meeting at 3pm.'')"
    by (simp add: ascii_runtime_def ustr_def)
  have "extract_text demo_env (ustr ''uploads'') (ustr ''notes.txt'') = Inr (ustr ''Meeting at 3pm.'')"
    by (simp only: extract_text_def extract_body_def rt ext_notes p g u Let_def
        if_True sum.case option.case)
  then show ?thesis by (simp only: extract_text_put_item)
qed

lemma strip_notes: "strip (ustr ''Meeting at 3pm.'') \<noteq> []"
  by (simp add: eval_defs)

lemma postprocess_notes:
  "postprocess ascii_runtime (ustr ''1. Meeting at 3pm.'') = ustr ''1. Meeting at 3pm.''"
  by (simp add: postprocess_def strip_formatting_def formatting_characters_def
      replace_with_empty_def bad_phrases_def eval_defs)

lemma demo_run:
  "lambda_handler (demo_env\<lparr>put_item := f\<rparr>) (S3Event (ustr ''uploads'') (ustr ''notes.txt'')) w =
     (Inr \<lparr> statusCode = 200, body_document_id = ustr ''0b9f4c1e'',
            body_document = ustr ''notes.txt'',
            body_summary_key = ustr ''summaries/'' @ ustr ''notes.txt'' @ ustr ''.summary.txt'',
            body_summary_length = length (ustr ''1. Meeting at 3pm.'') \<rparr>,
      send_notification (demo_env\<lparr>put_item := f\<rparr>) (ustr ''0b9f4c1e'') (ustr ''notes.txt'')
        (Some (ustr ''summaries/'' @ ustr ''notes.txt'' @ ustr ''.summary.txt'')) SUCCESS None
        (store_metadata (demo_env\<lparr>put_item := f\<rparr>) (ustr ''0b9f4c1e'') (ustr ''notes.txt'')
           COMPLETED (ustr ''2024-05-01T10:00:00+00:00'')
           (Some (Completion (ustr ''summaries/'' @ ustr ''notes.txt'' @ ustr ''.summary.txt'')
              (length (ustr ''Meeting at 3pm.'')) (length (ustr ''1. Meeting at 3pm.''))
              (ustr ''2.0'')))
           ((store_metadata (demo_env\<lparr>put_item := f\<rparr>) (ustr ''0b9f4c1e'') (ustr ''notes.txt'')
               PROCESSING (ustr ''2024-05-01T10:00:00+00:00'') None w)
              \<lparr>invocations := invocations w @
                   [build_request ascii_runtime (ustr ''Meeting at 3pm.'')],
                objects := (objects w)(ustr ''summaries/'' @ ustr ''notes.txt'' @ ustr ''.summary.txt''
                  \<mapsto> summary_artifact (demo_env\<lparr>put_item := f\<rparr>) (ustr ''notes.txt'')
                       (ustr ''1. Meeting at 3pm.'') (ustr ''Meeting at 3pm.''))\<rparr>)))"
proof -
  let ?E = "demo_env\<lparr>put_item := f\<rparr>"
  have i: "invoke_model ?E (build_request (rt ?E) (ustr ''Meeting at 3pm.''))
             = Inr (ustr ''1. Meeting at 3pm.'')"
    by (simp add: demo_env_def)
  have p: "put_object ?E (summary_artifact ?E (ustr ''notes.txt'')
             (postprocess (rt ?E) (ustr ''1. Meeting at 3pm.'')) (ustr ''Meeting at 3pm.'')) = None"
    by (simp add: demo_env_def)
  have e: "rt ?E = ascii_runtime" "uuid4 ?E = ustr ''0b9f4c1e''"
    "utcnow_isoformat ?E AtStart = ustr ''2024-05-01T10:00:00+00:00''"
    "elapsed_seconds_str ?E = ustr ''2.0''"
    by (simp_all add: demo_env_def)
  show ?thesis
    unfolding handler_succeeds [OF extract_notes strip_notes i p]
    by (simp only: e postprocess_notes)
qed


text \<open>
  Claim C4 as stated fails: with a record store that rejects every write, the handler
  still returns the success response, hands only the PROCESSING and the COMPLETED
  record to \<open>put_item\<close>, publishes the SUCCESS notification alone, and leaves the
  table empty.
\<close>

theorem record_write_failure_not_raised:
  "put_item throttled_env
     (metadata_item throttled_env (ustr ''0b9f4c1e'') (ustr ''notes.txt'') PROCESSING
        (ustr ''2024-05-01T10:00:00+00:00'') None)
     = Some (Exn ServiceError (ustr ''ProvisionedThroughputExceededException''))
   \<and> fst (lambda_handler throttled_env (S3Event (ustr ''uploads'') (ustr ''notes.txt'')) empty_world)
     = Inr \<lparr> statusCode = 200, body_document_id = ustr ''0b9f4c1e'',
             body_document = ustr ''notes.txt'',
             body_summary_key = ustr ''summaries/'' @ ustr ''notes.txt'' @ ustr ''.summary.txt'',
             body_summary_length = 18 \<rparr>
   \<and> map processing_status (put_item_calls (snd (lambda_handler throttled_env
         (S3Event (ustr ''uploads'') (ustr ''notes.txt'')) empty_world)))
     = [PROCESSING, COMPLETED]
   \<and> map msg_status (published (snd (lambda_handler throttled_env
         (S3Event (ustr ''uploads'') (ustr ''notes.txt'')) empty_world)))
     = [SUCCESS]
   \<and> table (snd (lambda_handler throttled_env
         (S3Event (ustr ''uploads'') (ustr ''notes.txt'')) empty_world)) = Map.empty"
  unfolding throttled_env_def demo_run
  by (simp add: send_notification_effect store_metadata_effect metadata_item_def
      notification_message_def empty_world_def)
    (simp add: demo_env_def ustr_def)

section \<open>The records of one attempt\<close>

text \<open>
  Claim C1, as amended. For every attempt on a well-formed trigger event, the handler
  hands exactly two records to \<open>put_item\<close>: a PROCESSING record, then a COMPLETED or
  FAILED one. Both carry the attempt's \<open>document_id\<close> and the same
  \<open>processing_timestamp\<close>, the time read at the start. Under the key
  (\<open>document_id\<close>, \<open>processing_timestamp\<close>) the invocation therefore changes no other
  entry of the table, and once the terminal write is accepted the entry holds the
  terminal record, which has replaced the PROCESSING record.
\<close>

theorem status_changes_share_one_key:
  assumes "uuid4 E \<noteq> []"
  shows "\<exists>first terminal.
      put_item_calls (snd (lambda_handler E (S3Event bucket key) w))
        = put_item_calls w @ [first, terminal]
      \<and> processing_status first = PROCESSING
      \<and> (processing_status terminal = COMPLETED \<or> processing_status terminal = FAILED)
      \<and> document_id first = uuid4 E \<and> document_id terminal = uuid4 E
      \<and> processing_timestamp first = utcnow_isoformat E AtStart
      \<and> processing_timestamp terminal = utcnow_isoformat E AtStart
      \<and> (\<forall>k. k \<noteq> (uuid4 E, utcnow_isoformat E AtStart) \<longrightarrow>
            table (snd (lambda_handler E (S3Event bucket key) w)) k = table w k)
      \<and> (put_item E terminal = None \<longrightarrow>
            table (snd (lambda_handler E (S3Event bucket key) w))
              (uuid4 E, utcnow_isoformat E AtStart) = Some terminal)"
proof -
  have u: "or_unknown (Some (uuid4 E)) = uuid4 E"
    using assms by (simp add: or_unknown_def truthy_def)
  show ?thesis
  proof (cases "extract_text E bucket key")
    case (Inl e)
    show ?thesis
      unfolding handler_extract_fails [OF Inl]
      by (simp add: on_exception_effect store_metadata_effect metadata_item_def u)
  next
    case (Inr text_content)
    show ?thesis
    proof (cases "strip text_content = []")
      case True
      show ?thesis
        unfolding handler_no_text [OF Inr True]
        by (simp add: on_exception_effect store_metadata_effect metadata_item_def u)
    next
      case False
      show ?thesis
      proof (cases "invoke_model E (build_request (rt E) text_content)")
        case (Inl e)
        show ?thesis
          unfolding handler_generation_fails [OF Inr False Inl]
          by (simp add: on_exception_effect store_metadata_effect metadata_item_def u)
      next
        case content: (Inr content)
        show ?thesis
        proof (cases "put_object E (summary_artifact E key (postprocess (rt E) content) text_content)")
          case None
          show ?thesis
            unfolding handler_succeeds [OF Inr False content None]
            by (simp add: send_notification_effect store_metadata_effect metadata_item_def)
        next
          case (Some e)
          show ?thesis
            unfolding handler_store_fails [OF Inr False content Some]
            by (simp add: on_exception_effect store_metadata_effect metadata_item_def u)
        qed
      qed
    qed
  qed
qed


theorem status_changes_share_one_key_witness:
  "uuid4 demo_env \<noteq> []
   \<and> (\<exists>first terminal.
      put_item_calls (snd (lambda_handler demo_env
          (S3Event (ustr ''uploads'') (ustr ''notes.txt'')) empty_world))
        = put_item_calls empty_world @ [first, terminal]
      \<and> processing_status first = PROCESSING
      \<and> (processing_status terminal = COMPLETED \<or> processing_status terminal = FAILED)
      \<and> document_id first = uuid4 demo_env \<and> document_id terminal = uuid4 demo_env
      \<and> processing_timestamp first = utcnow_isoformat demo_env AtStart
      \<and> processing_timestamp terminal = utcnow_isoformat demo_env AtStart
      \<and> (\<forall>k. k \<noteq> (uuid4 demo_env, utcnow_isoformat demo_env AtStart) \<longrightarrow>
            table (snd (lambda_handler demo_env
              (S3Event (ustr ''uploads'') (ustr ''notes.txt'')) empty_world)) k
              = table empty_world k)
      \<and> (put_item demo_env terminal = None \<longrightarrow>
            table (snd (lambda_handler demo_env
              (S3Event (ustr ''uploads'') (ustr ''notes.txt'')) empty_world))
              (uuid4 demo_env, utcnow_isoformat demo_env AtStart) = Some terminal))"
proof -
  have u: "uuid4 demo_env \<noteq> []" by (simp add: demo_env_def ustr_def)
  show ?thesis
    using status_changes_share_one_key [OF u, of "ustr ''uploads''" "ustr ''notes.txt''" empty_world] u
    by (rule conjI [rotated])
qed

text \<open>
  Claim C1 as stated fails: after a successful attempt in which every write is
  accepted, the two records handed to \<open>put_item\<close> carry the same timestamp, and the
  table holds a single record for the attempt, the COMPLETED one; the PROCESSING
  record does not coexist with it.
\<close>

theorem terminal_record_replaces_processing_record:
  "map processing_status (put_item_calls (snd (lambda_handler demo_env
       (S3Event (ustr ''uploads'') (ustr ''notes.txt'')) empty_world)))
     = [PROCESSING, COMPLETED]
   \<and> map processing_timestamp (put_item_calls (snd (lambda_handler demo_env
       (S3Event (ustr ''uploads'') (ustr ''notes.txt'')) empty_world)))
     = [ustr ''2024-05-01T10:00:00+00:00'', ustr ''2024-05-01T10:00:00+00:00'']
   \<and> dom (table (snd (lambda_handler demo_env
       (S3Event (ustr ''uploads'') (ustr ''notes.txt'')) empty_world)))
     = {(ustr ''0b9f4c1e'', ustr ''2024-05-01T10:00:00+00:00'')}
   \<and> map_option processing_status (table (snd (lambda_handler demo_env
       (S3Event (ustr ''uploads'') (ustr ''notes.txt'')) empty_world))
         (ustr ''0b9f4c1e'', ustr ''2024-05-01T10:00:00+00:00''))
     = Some COMPLETED"
proof -
  have d: "demo_env\<lparr>put_item := put_item demo_env\<rparr> = demo_env" by simp
  have p: "put_item demo_env it = None" for it by (simp add: demo_env_def)
  show ?thesis
    unfolding demo_run [of "put_item demo_env", unfolded d]
    by (simp add: send_notification_effect store_metadata_effect metadata_item_def
        empty_world_def p)
qed

end
